theory Spec2Isabelle
  imports Complex_Main "HOL-Library.AList"
begin

section \<open>Python values and errors\<close>

text \<open>
  The client works on decoded JSON, on strings and on Python's \<open>None\<close>. A decoded JSON value
  is modelled by \<open>json\<close>; \<open>JNull\<close> is Python's \<open>None\<close>. A \<open>str\<close> is the list of its bytes in
  UTF-8, an \<open>int\<close> is unbounded, a \<open>float\<close> is the rational number it denotes (all finite
  doubles are rationals; rounding of double arithmetic is not modelled). A \<open>dict\<close> is the list
  of its items in insertion order, with pairwise distinct keys.
\<close>

datatype json =
    JNull
  | JBool bool
  | JInt int
  | JFloat rat
  | JStr string
  | JArr "json list"
  | JObj "(string \<times> json) list"

datatype py_error = ValueError | TypeError | AttributeError | KeyError | JSONDecodeError

section \<open>Request signer: time stamps\<close>

text \<open>
  \<open>datetime.datetime.now(datetime.UTC)\<close> is the one input of the signer that the caller does
  not pass; it is a parameter of the model.
\<close>

record datetime =
  year :: nat
  month :: nat
  day :: nat
  hour :: nat
  minute :: nat
  second :: nat

definition digit_char :: "nat \<Rightarrow> char" where
  "digit_char d = char_of (48 + d)"

text \<open>\<open>zero_pad w n\<close>: the last \<open>w\<close> decimal digits of \<open>n\<close>, as C's \<open>%0wd\<close> prints a number
  that fits \<open>w\<close> digits.\<close>

fun zero_pad :: "nat \<Rightarrow> nat \<Rightarrow> string" where
  "zero_pad 0 n = []"
| "zero_pad (Suc w) n = zero_pad w (n div 10) @ [digit_char (n mod 10)]"

text \<open>The conversion specifications of \<open>strftime\<close> that the source uses, and \<open>%%\<close>.\<close>

fun directive :: "char \<Rightarrow> datetime \<Rightarrow> string" where
  "directive c t =
     (if c = CHR ''Y'' then zero_pad 4 (year t)
      else if c = CHR ''m'' then zero_pad 2 (month t)
      else if c = CHR ''d'' then zero_pad 2 (day t)
      else if c = CHR ''H'' then zero_pad 2 (hour t)
      else if c = CHR ''M'' then zero_pad 2 (minute t)
      else if c = CHR ''S'' then zero_pad 2 (second t)
      else if c = CHR ''%'' then ''%''
      else [CHR ''%'', c])"

text \<open>\<open>t.strftime(fmt)\<close>: a \<open>%\<close> and the character after it are a conversion; every other
  character is copied.\<close>

fun strftime :: "string \<Rightarrow> datetime \<Rightarrow> string" where
  "strftime [] t = []"
| "strftime [c] t = [c]"
| "strftime (c # c' # cs) t =
     (if c = CHR ''%'' then directive c' t @ strftime cs t
      else c # strftime (c' # cs) t)"

definition amzdate :: "datetime \<Rightarrow> string" where
  "amzdate t = strftime ''%Y%m%dT%H%M%SZ'' t"

definition datestamp :: "datetime \<Rightarrow> string" where
  "datestamp t = strftime ''%Ym%d'' t"

section \<open>Request signer: the signature\<close>

text \<open>
  SHA-256 and HMAC-SHA256 come from Python's \<open>hashlib\<close> and \<open>hmac\<close>; they are parameters of
  the model, each giving the raw digest. \<open>hexdigest\<close> is the digest in lower-case hexadecimal.
\<close>

record crypto =
  sha256_digest :: "string \<Rightarrow> string"
  hmac_sha256_digest :: "string \<Rightarrow> string \<Rightarrow> string"

definition hex_char :: "nat \<Rightarrow> char" where
  "hex_char d = (if d < 10 then char_of (48 + d) else char_of (87 + d))"

definition hex_byte :: "char \<Rightarrow> string" where
  "hex_byte c = [hex_char ((of_char c :: nat) div 16), hex_char ((of_char c :: nat) mod 16)]"

definition hexlify :: "string \<Rightarrow> string" where
  "hexlify s = concat (map hex_byte s)"

definition sha256_hexdigest :: "crypto \<Rightarrow> string \<Rightarrow> string" where
  "sha256_hexdigest cr m = hexlify (sha256_digest cr m)"

definition hmac_sha256_hexdigest :: "crypto \<Rightarrow> string \<Rightarrow> string \<Rightarrow> string" where
  "hmac_sha256_hexdigest cr k m = hexlify (hmac_sha256_digest cr k m)"

text \<open>\<open>s.encode('utf-8')\<close>: a \<open>str\<close> is modelled by its UTF-8 bytes already.\<close>

definition encode_utf8 :: "string \<Rightarrow> string" where
  "encode_utf8 s = s"

definition sign :: "crypto \<Rightarrow> string \<Rightarrow> string \<Rightarrow> string" where
  "sign cr key message = hmac_sha256_digest cr key (encode_utf8 message)"

definition get_signature_key :: "crypto \<Rightarrow> string \<Rightarrow> string \<Rightarrow> string \<Rightarrow> string \<Rightarrow> string" where
  "get_signature_key cr key date_stamp region_name service_name =
     (let k_date = sign cr (encode_utf8 (''AWS4'' @ key)) date_stamp;
          k_region = sign cr k_date region_name;
          k_service = sign cr k_region service_name;
          k_signing = sign cr k_service ''aws4_request''
      in k_signing)"

text \<open>
  \<open>r.headers\<close> is a case-insensitive dictionary of the \<open>requests\<close> library: it stores, under
  the lower-cased name, the name as last written and the value, and keeps the position of a
  name that is written again.
\<close>

definition lower_char :: "char \<Rightarrow> char" where
  "lower_char c =
     (if 65 \<le> (of_char c :: nat) \<and> (of_char c :: nat) \<le> 90 then char_of ((of_char c :: nat) + 32)
      else c)"

definition lower :: "string \<Rightarrow> string" where
  "lower s = map lower_char s"

type_synonym headers = "(string \<times> string \<times> string) list"

fun ci_set :: "string \<Rightarrow> string \<Rightarrow> headers \<Rightarrow> headers" where
  "ci_set k v [] = [(lower k, k, v)]"
| "ci_set k v ((l, kv) # hs) =
     (if l = lower k then (l, k, v) # hs else (l, kv) # ci_set k v hs)"

definition ci_get :: "headers \<Rightarrow> string \<Rightarrow> py_error + string" where
  "ci_get hs k = (case map_of hs (lower k) of None \<Rightarrow> Inl KeyError | Some (k', v) \<Rightarrow> Inr v)"

text \<open>
  \<open>urlparse(r.url)\<close> belongs to the standard library. The model takes the URL of the prepared
  request in parsed form: the query parameters that \<open>requests\<close> appended to the URL are its
  \<open>url_query\<close> component and no other.
\<close>

record parsed_url =
  url_scheme :: string
  url_netloc :: string
  url_path :: string
  url_query :: string

datatype py_body = BodyNone | BodyBytes string | BodyStr string

record prepared_request =
  req_method :: string
  req_url :: parsed_url
  req_headers :: headers
  req_body :: py_body

record ec2_request_auth =
  access_key :: string
  secret_key :: string
  region :: string
  service :: string
  algorithm :: string

definition ec2_request_auth_init :: "string \<Rightarrow> string \<Rightarrow> string \<Rightarrow> string \<Rightarrow> ec2_request_auth" where
  "ec2_request_auth_init ak sk rg sv =
     \<lparr>access_key = ak, secret_key = sk, region = rg, service = sv,
      algorithm = ''AWS4-HMAC-SHA256''\<rparr>"

text \<open>\<open>'\n'.join(xs)\<close>\<close>

fun join_nl :: "string list \<Rightarrow> string" where
  "join_nl [] = []"
| "join_nl [x] = x"
| "join_nl (x # y # ys) = x @ [CHR 0x0A] @ join_nl (y # ys)"

definition canonical_uri :: "prepared_request \<Rightarrow> string" where
  "canonical_uri r = (if url_path (req_url r) \<noteq> [] then url_path (req_url r) else ''/'')"

definition canonical_querystring :: "prepared_request \<Rightarrow> string" where
  "canonical_querystring r = []"

definition signed_headers_list :: "string list" where
  "signed_headers_list = [''host'', ''x-amz-date'']"

definition signed_headers_str :: string where
  "signed_headers_str = ''host;x-amz-date''"

fun canonical_headers :: "headers \<Rightarrow> string list \<Rightarrow> py_error + string" where
  "canonical_headers hs [] = Inr []"
| "canonical_headers hs (h # rest) =
     (case ci_get hs h of
        Inl e \<Rightarrow> Inl e
      | Inr v \<Rightarrow>
          (case canonical_headers hs rest of
             Inl e \<Rightarrow> Inl e
           | Inr s \<Rightarrow> Inr (h @ '':'' @ v @ [CHR 0x0A] @ s)))"

text \<open>\<open>body = r.body or b''\<close>, then the SHA-256 of the bytes, a \<open>str\<close> being encoded first.\<close>

definition body_hash :: "crypto \<Rightarrow> py_body \<Rightarrow> string" where
  "body_hash cr b =
     (case b of
        BodyNone \<Rightarrow> sha256_hexdigest cr []
      | BodyBytes bs \<Rightarrow> sha256_hexdigest cr bs
      | BodyStr s \<Rightarrow> (if s = [] then sha256_hexdigest cr [] else sha256_hexdigest cr (encode_utf8 s)))"

definition credential_scope :: "ec2_request_auth \<Rightarrow> datetime \<Rightarrow> string" where
  "credential_scope a t = datestamp t @ ''/'' @ region a @ ''/'' @ service a @ ''/aws4_request''"

definition canonical_request :: "crypto \<Rightarrow> prepared_request \<Rightarrow> string \<Rightarrow> string" where
  "canonical_request cr r ch =
     join_nl [req_method r, canonical_uri r, canonical_querystring r, ch, signed_headers_str,
              body_hash cr (req_body r)]"

definition string_to_sign :: "crypto \<Rightarrow> ec2_request_auth \<Rightarrow> datetime \<Rightarrow> string \<Rightarrow> string" where
  "string_to_sign cr a t creq =
     join_nl [algorithm a, amzdate t, credential_scope a t,
              sha256_hexdigest cr (encode_utf8 creq)]"

definition signature :: "crypto \<Rightarrow> ec2_request_auth \<Rightarrow> datetime \<Rightarrow> string \<Rightarrow> string" where
  "signature cr a t creq =
     hmac_sha256_hexdigest cr
       (get_signature_key cr (secret_key a) (datestamp t) (region a) (service a))
       (encode_utf8 (string_to_sign cr a t creq))"

definition authorization_header :: "ec2_request_auth \<Rightarrow> datetime \<Rightarrow> string \<Rightarrow> string" where
  "authorization_header a t sig =
     algorithm a @ '' Credential='' @ access_key a @ ''/'' @ credential_scope a t @ '', ''
       @ ''SignedHeaders='' @ signed_headers_str @ '', Signature='' @ sig"

text \<open>\<open>_EC2RequestAuth.__call__\<close>, with the clock reading \<open>t\<close>.\<close>

definition auth_call :: "crypto \<Rightarrow> ec2_request_auth \<Rightarrow> datetime \<Rightarrow> prepared_request
    \<Rightarrow> py_error + prepared_request" where
  "auth_call cr a t r =
     (let host = url_netloc (req_url r);
          hs = ci_set ''Host'' host (ci_set ''X-Amz-Date'' (amzdate t) (req_headers r))
      in case canonical_headers hs signed_headers_list of
           Inl e \<Rightarrow> Inl e
         | Inr ch \<Rightarrow>
             Inr (r\<lparr>req_headers :=
                      ci_set ''Authorization''
                        (authorization_header a t (signature cr a t (canonical_request cr r ch)))
                        hs\<rparr>))"

section \<open>Python operations on decoded JSON\<close>

text \<open>Sequencing of computations that may raise: the first error ends the computation.\<close>

definition then_do :: "py_error + 'a \<Rightarrow> ('a \<Rightarrow> py_error + 'b) \<Rightarrow> py_error + 'b" where
  "then_do m f = (case m of Inl e \<Rightarrow> Inl e | Inr v \<Rightarrow> f v)"

text \<open>Truth value of an object, as \<open>if x\<close>, \<open>not x\<close>, \<open>x and y\<close> test it.\<close>

fun py_truthy :: "json \<Rightarrow> bool" where
  "py_truthy JNull = False"
| "py_truthy (JBool b) = b"
| "py_truthy (JInt i) = (i \<noteq> 0)"
| "py_truthy (JFloat r) = (r \<noteq> 0)"
| "py_truthy (JStr s) = (s \<noteq> [])"
| "py_truthy (JArr xs) = (xs \<noteq> [])"
| "py_truthy (JObj kvs) = (kvs \<noteq> [])"

text \<open>\<open>v.get(k, default)\<close>: only a \<open>dict\<close> has the method.\<close>

fun dict_get :: "json \<Rightarrow> string \<Rightarrow> json \<Rightarrow> py_error + json" where
  "dict_get (JObj kvs) k dflt = Inr (case map_of kvs k of None \<Rightarrow> dflt | Some v \<Rightarrow> v)"
| "dict_get v k dflt = Inl AttributeError"

text \<open>\<open>v[k]\<close> with a string \<open>k\<close>.\<close>

fun subscript :: "json \<Rightarrow> string \<Rightarrow> py_error + json" where
  "subscript (JObj kvs) k = (case map_of kvs k of None \<Rightarrow> Inl KeyError | Some v \<Rightarrow> Inr v)"
| "subscript v k = Inl TypeError"

fun is_list :: "json \<Rightarrow> bool" where
  "is_list (JArr xs) = True"
| "is_list v = False"

text \<open>
  The elements that a \<open>for\<close> loop, \<open>sum\<close> or \<open>list.extend\<close> draws from an object: the items of
  a list, the keys of a \<open>dict\<close>, the characters of a \<open>str\<close> (here its bytes, which is exact for
  ASCII); anything else is not iterable.
\<close>

fun py_iter :: "json \<Rightarrow> py_error + json list" where
  "py_iter (JArr xs) = Inr xs"
| "py_iter (JObj kvs) = Inr (map (\<lambda>kv. JStr (fst kv)) kvs)"
| "py_iter (JStr s) = Inr (map (\<lambda>c. JStr [c]) s)"
| "py_iter v = Inl TypeError"

text \<open>The number that arithmetic sees in an object: \<open>bool\<close> is a subclass of \<open>int\<close>.\<close>

fun num_of :: "json \<Rightarrow> py_error + rat" where
  "num_of (JBool b) = Inr (if b then 1 else 0)"
| "num_of (JInt i) = Inr (of_int i)"
| "num_of (JFloat r) = Inr r"
| "num_of v = Inl TypeError"

definition py_add :: "rat \<Rightarrow> json \<Rightarrow> py_error + rat" where
  "py_add x v = then_do (num_of v) (\<lambda>y. Inr (x + y))"

definition py_div :: "json \<Rightarrow> rat \<Rightarrow> py_error + rat" where
  "py_div v d = then_do (num_of v) (\<lambda>y. Inr (y / d))"

text \<open>\<open>round(x, 2)\<close>: to the nearest multiple of 1/100, a tie going to the even multiple.\<close>

definition py_round2 :: "rat \<Rightarrow> rat" where
  "py_round2 x =
     (let y = x * 100; f = \<lfloor>y\<rfloor>; d = y - of_int f
      in if d < 1 / 2 then of_int f / 100
         else if 1 / 2 < d then of_int (f + 1) / 100
         else if even f then of_int f / 100
         else of_int (f + 1) / 100)"

text \<open>\<open>s.split(c)\<close> and \<open>s.rstrip(c)\<close> for a one-character separator.\<close>

fun split_on :: "char \<Rightarrow> string \<Rightarrow> string list" where
  "split_on c [] = [[]]"
| "split_on c (x # xs) =
     (if x = c then [] # split_on c xs
      else (case split_on c xs of [] \<Rightarrow> [[x]] | y # ys \<Rightarrow> (x # y) # ys))"

definition rstrip :: "char \<Rightarrow> string \<Rightarrow> string" where
  "rstrip c s = rev (dropWhile (\<lambda>x. x = c) (rev s))"

section \<open>API client: requests\<close>

text \<open>
  What the client hands to \<open>session.request\<close>, and what comes back. The HTTP transport and the
  JSON decoder are external: an exchange either fails below HTTP (any
  \<open>requests.exceptions.RequestException\<close> from \<open>session.request\<close>) or yields a status code and
  a body, which decodes to a JSON value or does not.
\<close>

record http_request =
  rq_method :: string
  rq_url :: string
  rq_params :: json
  rq_json :: json

datatype http_outcome =
    ConnectionFailed
  | Response nat "json option"

text \<open>
  The world outside the client: the transport answers a request given the requests sent
  before it; \<open>int_of_str\<close> is Python's \<open>int\<close> on a \<open>str\<close> (\<open>None\<close> where it raises) and
  \<open>str_of\<close> is how an f-string renders an object that is not a \<open>str\<close>.
\<close>

record world =
  transport :: "http_request list \<Rightarrow> http_request \<Rightarrow> http_outcome"
  int_of_str :: "string \<Rightarrow> int option"
  str_of :: "json \<Rightarrow> string"

text \<open>
  The client object. \<open>sent\<close> is not a field of the source: it records every request handed to
  the transport, in order, so that the network calls of an operation can be counted.
  Diagnostics on standard error (\<open>verbose\<close>) are not part of the state.
\<close>

record client =
  session_auth :: ec2_request_auth
  base_url :: string
  verbose :: bool
  all_vms_cache :: "json list option"
  sent :: "http_request list"

definition client_init :: "string \<Rightarrow> string \<Rightarrow> string \<Rightarrow> string \<Rightarrow> string \<Rightarrow> bool \<Rightarrow> client" where
  "client_init ak sk rg sv url vb =
     \<lparr>session_auth = ec2_request_auth_init ak sk rg sv,
      base_url = rstrip CHR ''/'' url,
      verbose = vb,
      all_vms_cache = None,
      sent = []\<rparr>"

type_synonym 'a result = "(py_error + 'a) \<times> client"

text \<open>\<open>response.raise_for_status()\<close> raises for the 4xx and 5xx codes.\<close>

definition is_http_error :: "nat \<Rightarrow> bool" where
  "is_http_error code = (400 \<le> code \<and> code < 600)"

text \<open>
  \<open>send_request\<close>. On success \<open>response.json()\<close> is returned, and a body that does not decode
  is caught and gives \<open>None\<close>. An \<open>HTTPError\<close> is handled by returning \<open>e.response.json()\<close>; this
  call runs inside the handler, where no other \<open>except\<close> clause of the statement applies, so
  its decoding error leaves the function.
\<close>

definition send_request :: "world \<Rightarrow> string \<Rightarrow> string \<Rightarrow> json \<Rightarrow> json \<Rightarrow> client \<Rightarrow> json result" where
  "send_request w method path params json_data c =
     (let full_url = base_url c @ path;
          rq = \<lparr>rq_method = method, rq_url = full_url, rq_params = params, rq_json = json_data\<rparr>;
          c' = c\<lparr>sent := sent c @ [rq]\<rparr>
      in case transport w (sent c) rq of
           ConnectionFailed \<Rightarrow> (Inr JNull, c')
         | Response code body \<Rightarrow>
             (if is_http_error code then
                (case body of None \<Rightarrow> (Inl JSONDecodeError, c') | Some j \<Rightarrow> (Inr j, c'))
              else
                (case body of None \<Rightarrow> (Inr JNull, c') | Some j \<Rightarrow> (Inr j, c'))))"

definition get_availability_zones :: "world \<Rightarrow> client \<Rightarrow> json result" where
  "get_availability_zones w c = send_request w ''GET'' ''/janus/20190725/azs'' JNull JNull c"

definition get_vms :: "world \<Rightarrow> json \<Rightarrow> json \<Rightarrow> client \<Rightarrow> json result" where
  "get_vms w page_num page_size c =
     (let params = (if page_num \<noteq> JNull then [(''page_num'', page_num)] else [])
                   @ (if py_truthy page_size then [(''page_size'', page_size)] else [])
      in send_request w ''GET'' ''/janus/20190725/servers'' (JObj params) JNull c)"

section \<open>API client: the full scan\<close>

text \<open>\<open>response and response.get('data') and isinstance(response['data'].get('data'), list)\<close>\<close>

definition page_ok :: "json \<Rightarrow> py_error + bool" where
  "page_ok response =
     (if \<not> py_truthy response then Inr False
      else then_do (dict_get response ''data'' JNull) (\<lambda>d.
        if \<not> py_truthy d then Inr False
        else then_do (subscript response ''data'') (\<lambda>d'.
          then_do (dict_get d' ''data'' JNull) (\<lambda>dd. Inr (is_list dd)))))"

text \<open>\<open>int(x)\<close>\<close>

fun py_int :: "world \<Rightarrow> json \<Rightarrow> py_error + int" where
  "py_int w (JBool b) = Inr (if b then 1 else 0)"
| "py_int w (JInt i) = Inr i"
| "py_int w (JFloat r) = Inr (if 0 \<le> r then \<lfloor>r\<rfloor> else \<lceil>r\<rceil>)"
| "py_int w (JStr s) = (case int_of_str w s of None \<Rightarrow> Inl ValueError | Some i \<Rightarrow> Inr i)"
| "py_int w v = Inl TypeError"

text \<open>
  One round of the \<open>while True\<close> loop after the response has arrived: either the loop ends
  with the list accumulated so far, or it goes on with a longer list and the next page number.
\<close>

datatype page_step = Break "json list" | Continue "json list" int

definition page_round :: "world \<Rightarrow> json list \<Rightarrow> json \<Rightarrow> py_error + page_step" where
  "page_round w all_vms response =
     then_do (page_ok response) (\<lambda>ok.
       if \<not> ok then Inr (Break all_vms)
       else then_do (subscript response ''data'') (\<lambda>d.
            then_do (subscript d ''data'') (\<lambda>vms_on_this_page.
            then_do (py_iter vms_on_this_page) (\<lambda>items.
            then_do (subscript response ''data'') (\<lambda>d'.
            then_do (dict_get d' ''next_page_num'' JNull) (\<lambda>next_page_info.
              if \<not> py_truthy next_page_info \<or> \<not> py_truthy vms_on_this_page
              then Inr (Break (all_vms @ items))
              else then_do (py_int w next_page_info) (\<lambda>n. Inr (Continue (all_vms @ items) n))))))))"

text \<open>The loop of \<open>get_all_vms\<close>. It need not end: the result is \<open>None\<close> when it does not.\<close>

partial_function (option) scan_pages :: "world \<Rightarrow> json list \<Rightarrow> int \<Rightarrow> client \<Rightarrow> json list result option" where
  "scan_pages w all_vms current_page c =
     (case get_vms w (JInt current_page) (JInt 100) c of
        (Inl e, c1) \<Rightarrow> Some (Inl e, c1)
      | (Inr response, c1) \<Rightarrow>
          (case page_round w all_vms response of
             Inl e \<Rightarrow> Some (Inl e, c1)
           | Inr (Break vms) \<Rightarrow> Some (Inr vms, c1)
           | Inr (Continue vms n) \<Rightarrow> scan_pages w vms n c1))"

definition get_all_vms :: "world \<Rightarrow> bool \<Rightarrow> client \<Rightarrow> json list result option" where
  "get_all_vms w use_cache c =
     (case (if use_cache then all_vms_cache c else None) of
        Some cached \<Rightarrow> Some (Inr cached, c)
      | None \<Rightarrow>
          (case scan_pages w [] 0 c of
             None \<Rightarrow> None
           | Some (Inl e, c1) \<Rightarrow> Some (Inl e, c1)
           | Some (Inr all_vms, c1) \<Rightarrow> Some (Inr all_vms, c1\<lparr>all_vms_cache := Some all_vms\<rparr>)))"

section \<open>API client: look-ups\<close>

text \<open>The rendering of \<open>{vm_id}\<close> in an f-string.\<close>

definition format_value :: "world \<Rightarrow> json \<Rightarrow> string" where
  "format_value w v = (case v of JStr s \<Rightarrow> s | _ \<Rightarrow> str_of w v)"

definition get_vm_details :: "world \<Rightarrow> json \<Rightarrow> client \<Rightarrow> json result" where
  "get_vm_details w vm_id c =
     (if \<not> py_truthy vm_id then (Inl ValueError, c)
      else send_request w ''GET'' (''/janus/20190725/servers/'' @ format_value w vm_id) JNull JNull c)"

definition get_vm_snapshots :: "world \<Rightarrow> json \<Rightarrow> client \<Rightarrow> json result" where
  "get_vm_snapshots w vm_id c =
     (if \<not> py_truthy vm_id then (Inl ValueError, c)
      else send_request w ''GET''
             (''/janus/20190725/servers/'' @ format_value w vm_id @ ''/snapshots'') JNull JNull c)"

definition get_vm_backups :: "world \<Rightarrow> json \<Rightarrow> client \<Rightarrow> json result" where
  "get_vm_backups w vm_id c =
     (if \<not> py_truthy vm_id then (Inl ValueError, c)
      else send_request w ''GET''
             (''/janus/20190725/servers/'' @ format_value w vm_id @ ''/backups'') JNull JNull c)"

text \<open>\<open>next((vm for vm in vm_list if vm.get('name') == identifier), None)\<close>\<close>

fun first_named :: "json list \<Rightarrow> string \<Rightarrow> py_error + json" where
  "first_named [] identifier = Inr JNull"
| "first_named (vm # vms) identifier =
     then_do (dict_get vm ''name'' JNull) (\<lambda>n.
       if n = JStr identifier then Inr vm else first_named vms identifier)"

definition is_uuid :: "string \<Rightarrow> bool" where
  "is_uuid identifier = (length (split_on CHR ''-'' identifier) = 5)"

definition find_vm :: "world \<Rightarrow> string \<Rightarrow> client \<Rightarrow> json result option" where
  "find_vm w identifier c =
     (if is_uuid identifier then Some (get_vm_details w (JStr identifier) c)
      else
        (case get_all_vms w True c of
           None \<Rightarrow> None
         | Some (Inl e, c1) \<Rightarrow> Some (Inl e, c1)
         | Some (Inr vm_list, c1) \<Rightarrow>
             (case first_named vm_list identifier of
                Inl e \<Rightarrow> Some (Inl e, c1)
              | Inr target_vm \<Rightarrow>
                  if py_truthy target_vm then
                    (case dict_get target_vm ''id'' JNull of
                       Inl e \<Rightarrow> Some (Inl e, c1)
                     | Inr vm_id \<Rightarrow> Some (get_vm_details w vm_id c1))
                  else Some (Inr JNull, c1))))"

section \<open>API client: the infrastructure report\<close>

text \<open>
  One block of totals of the report, for the whole fleet or for one zone. The source keeps it
  as nested dictionaries \<open>total_vms\<close>, \<open>vms_by_status\<close>, \<open>total_provisioned\<close> and \<open>total_used\<close>;
  the per-zone block spells the two memory keys \<open>ram_gb\<close> where the overall block has
  \<open>memory_gb\<close>.
\<close>

record totals =
  total_vms :: nat
  vms_running :: nat
  vms_stopped :: nat
  vms_other :: nat
  prov_cpu_cores :: rat
  prov_memory_gb :: rat
  prov_disk_tb :: rat
  used_cpu_mhz :: rat
  used_memory_gb :: rat
  used_disk_gb :: rat

definition zero_totals :: totals where
  "zero_totals =
     \<lparr>total_vms = 0, vms_running = 0, vms_stopped = 0, vms_other = 0,
      prov_cpu_cores = 0, prov_memory_gb = 0, prov_disk_tb = 0,
      used_cpu_mhz = 0, used_memory_gb = 0, used_disk_gb = 0\<rparr>"

text \<open>
  A key of the dictionary \<open>by_availability_zone\<close>. Lists and dictionaries are not hashable;
  numbers are equal as keys when they are equal as numbers, \<open>True\<close> and \<open>False\<close> being 1 and 0.
\<close>

datatype zone_key = KNone | KNum rat | KStr string

fun hash_key :: "json \<Rightarrow> py_error + zone_key" where
  "hash_key JNull = Inr KNone"
| "hash_key (JBool b) = Inr (KNum (if b then 1 else 0))"
| "hash_key (JInt i) = Inr (KNum (of_int i))"
| "hash_key (JFloat r) = Inr (KNum r)"
| "hash_key (JStr s) = Inr (KStr s)"
| "hash_key v = Inl TypeError"

record report =
  report_generated_at :: string
  overall_totals :: totals
  by_availability_zone :: "(zone_key \<times> totals) list"

text \<open>The two results of the report: the dictionary \<open>{"error": "No virtual machines were
  found."}\<close> and the report proper.\<close>

datatype report_result = NoVMsFound | Report report

text \<open>\<open>az_response.get('data', {}).get('data', []) if az_response else []\<close>\<close>

definition az_list_of :: "json \<Rightarrow> py_error + json" where
  "az_list_of az_response =
     (if py_truthy az_response then
        then_do (dict_get az_response ''data'' (JObj [])) (\<lambda>d. dict_get d ''data'' (JArr []))
      else Inr (JArr []))"

text \<open>The loop over \<open>az_list\<close>: an assignment to a key that exists replaces its value.\<close>

fun init_zones :: "json list \<Rightarrow> (zone_key \<times> totals) list \<Rightarrow> py_error + (zone_key \<times> totals) list" where
  "init_zones [] zs = Inr zs"
| "init_zones (az # azs) zs =
     then_do (dict_get az ''name'' JNull) (\<lambda>az_name.
       if py_truthy az_name then
         then_do (hash_key az_name) (\<lambda>k. init_zones azs (AList.update k zero_totals zs))
       else init_zones azs zs)"

text \<open>\<open>sum(disk.get('size_mb', 0.0) for disk in ...)\<close>, from the running sum \<open>acc\<close>.\<close>

fun sum_size_mb :: "json list \<Rightarrow> rat \<Rightarrow> py_error + rat" where
  "sum_size_mb [] acc = Inr acc"
| "sum_size_mb (disk # disks) acc =
     then_do (dict_get disk ''size_mb'' (JFloat 0)) (\<lambda>x.
     then_do (py_add acc x) (\<lambda>acc'. sum_size_mb disks acc'))"

text \<open>\<open>status = vm.get('status', 'other')\<close>, reduced to one of the three buckets.\<close>

definition status_bucket :: "json \<Rightarrow> string" where
  "status_bucket st =
     (if st = JStr ''running'' then ''running''
      else if st = JStr ''stopped'' then ''stopped''
      else ''other'')"

text \<open>\<open>total_vms += 1\<close> and \<open>vms_by_status[status] += 1\<close>\<close>

definition count_vm :: "string \<Rightarrow> totals \<Rightarrow> totals" where
  "count_vm status t =
     (let t1 = t\<lparr>total_vms := total_vms t + 1\<rparr>
      in if status = ''running'' then t1\<lparr>vms_running := vms_running t1 + 1\<rparr>
         else if status = ''stopped'' then t1\<lparr>vms_stopped := vms_stopped t1 + 1\<rparr>
         else t1\<lparr>vms_other := vms_other t1 + 1\<rparr>)"

definition add_provisioned :: "rat \<Rightarrow> rat \<Rightarrow> rat \<Rightarrow> totals \<Rightarrow> totals" where
  "add_provisioned cores mem_gb dsk_tb t =
     t\<lparr>prov_cpu_cores := prov_cpu_cores t + cores,
       prov_memory_gb := prov_memory_gb t + mem_gb,
       prov_disk_tb := prov_disk_tb t + dsk_tb\<rparr>"

definition add_used :: "rat \<Rightarrow> rat \<Rightarrow> rat \<Rightarrow> totals \<Rightarrow> totals" where
  "add_used mhz mem_gb dsk_gb t =
     t\<lparr>used_cpu_mhz := used_cpu_mhz t + mhz,
       used_memory_gb := used_memory_gb t + mem_gb,
       used_disk_gb := used_disk_gb t + dsk_gb\<rparr>"

text \<open>\<open>if vm.get(field): x = vm[field].get(key, 0.0)\<close>: the value read, if the block runs.\<close>

definition status_value :: "json \<Rightarrow> string \<Rightarrow> string \<Rightarrow> py_error + json option" where
  "status_value vm field key =
     then_do (dict_get vm field JNull) (\<lambda>s.
       if py_truthy s then
         then_do (subscript vm field) (\<lambda>s'.
         then_do (dict_get s' key (JFloat 0)) (\<lambda>x. Inr (Some x)))
       else Inr None)"

text \<open>The amount that one of the three blocks of used resources adds, divided by \<open>d\<close> where
  the source divides.\<close>

definition used_amount :: "json option \<Rightarrow> rat option \<Rightarrow> py_error + rat" where
  "used_amount x d =
     (case x of
        None \<Rightarrow> Inr 0
      | Some v \<Rightarrow> (case d of None \<Rightarrow> num_of v | Some k \<Rightarrow> py_div v k))"

text \<open>The body of the loop over \<open>all_vms\<close>.\<close>

definition add_vm :: "json \<Rightarrow> report \<Rightarrow> py_error + report" where
  "add_vm vm rep =
     then_do (dict_get vm ''az_name'' JNull) (\<lambda>az_name.
       if \<not> py_truthy az_name then Inr rep
       else then_do (hash_key az_name) (\<lambda>k.
         case map_of (by_availability_zone rep) k of
           None \<Rightarrow> Inr rep
         | Some az_report \<Rightarrow>
             then_do (dict_get vm ''status'' (JStr ''other'')) (\<lambda>st.
             then_do (dict_get vm ''cores'' (JInt 0)) (\<lambda>cores.
             then_do (dict_get vm ''memory_mb'' (JFloat 0)) (\<lambda>memory_mb.
             then_do (dict_get vm ''disks'' (JArr [])) (\<lambda>disks.
             then_do (py_iter disks) (\<lambda>disk_list.
             then_do (sum_size_mb disk_list 0) (\<lambda>total_disk_mb.
             then_do (num_of cores) (\<lambda>cores_n.
             then_do (py_div memory_mb 1024) (\<lambda>mem_gb.
             then_do (status_value vm ''cpu_status'' ''used_mhz'') (\<lambda>cpu.
             then_do (used_amount cpu None) (\<lambda>used_mhz.
             then_do (status_value vm ''memory_status'' ''used_mb'') (\<lambda>mem.
             then_do (used_amount mem (Some 1024)) (\<lambda>used_mem_gb.
             then_do (status_value vm ''storage_status'' ''used_mb'') (\<lambda>sto.
             then_do (used_amount sto (Some 1024)) (\<lambda>used_dsk_gb.
               let upd = (\<lambda>t. add_used used_mhz used_mem_gb used_dsk_gb
                                 (add_provisioned cores_n mem_gb (total_disk_mb / (1024 * 1024))
                                   (count_vm (status_bucket st) t)))
               in Inr (rep\<lparr>overall_totals := upd (overall_totals rep),
                           by_availability_zone :=
                             AList.update k (upd az_report) (by_availability_zone rep)\<rparr>)
             ))))))))))))))))"

fun add_vms :: "json list \<Rightarrow> report \<Rightarrow> py_error + report" where
  "add_vms [] rep = Inr rep"
| "add_vms (vm # vms) rep = then_do (add_vm vm rep) (\<lambda>rep'. add_vms vms rep')"

text \<open>The final pass: \<open>round(value, 2)\<close> on every provisioned and used figure.\<close>

definition round_totals :: "totals \<Rightarrow> totals" where
  "round_totals t =
     t\<lparr>prov_cpu_cores := py_round2 (prov_cpu_cores t),
       prov_memory_gb := py_round2 (prov_memory_gb t),
       prov_disk_tb := py_round2 (prov_disk_tb t),
       used_cpu_mhz := py_round2 (used_cpu_mhz t),
       used_memory_gb := py_round2 (used_memory_gb t),
       used_disk_gb := py_round2 (used_disk_gb t)\<rparr>"

definition finalize :: "report \<Rightarrow> report" where
  "finalize rep =
     rep\<lparr>overall_totals := round_totals (overall_totals rep),
         by_availability_zone := map (\<lambda>kt. (fst kt, round_totals (snd kt))) (by_availability_zone rep)\<rparr>"

text \<open>The report from the scanned list and the zone response; \<open>now\<close> is
  \<open>datetime.datetime.now().isoformat()\<close>, and \<open>zone_table\<close> is the block
  \<open>if az_list: for az in az_list: ...\<close> that enters the zones into the report.\<close>

definition zone_table :: "json \<Rightarrow> py_error + (zone_key \<times> totals) list" where
  "zone_table az_list =
     (if py_truthy az_list then then_do (py_iter az_list) (\<lambda>azs. init_zones azs [])
      else Inr [])"

definition build_report :: "string \<Rightarrow> json list \<Rightarrow> json \<Rightarrow> py_error + report_result" where
  "build_report now all_vms az_response =
     then_do (az_list_of az_response) (\<lambda>az_list.
       if all_vms = [] then Inr NoVMsFound
       else
         then_do (zone_table az_list) (\<lambda>zones.
         then_do (add_vms all_vms
                    \<lparr>report_generated_at = now, overall_totals = zero_totals,
                     by_availability_zone = zones\<rparr>) (\<lambda>rep.
           Inr (Report (finalize rep)))))"

definition generate_infrastructure_report :: "world \<Rightarrow> string \<Rightarrow> client \<Rightarrow> report_result result option" where
  "generate_infrastructure_report w now c =
     (case get_all_vms w False c of
        None \<Rightarrow> None
      | Some (Inl e, c1) \<Rightarrow> Some (Inl e, c1)
      | Some (Inr all_vms, c1) \<Rightarrow>
          (case get_availability_zones w c1 of
             (Inl e, c2) \<Rightarrow> Some (Inl e, c2)
           | (Inr az_response, c2) \<Rightarrow> Some (build_report now all_vms az_response, c2)))"

section \<open>The report as a sum over the fleet\<close>

text \<open>
  What the specification says of the report, to be compared with the loop: every VM that is
  counted adds its own amounts, at full precision, and the sums are rounded once at the end.
  \<open>vm_zone\<close> is the zone under which a VM is counted, if it is; \<open>vm_amounts\<close> are the amounts of
  one VM as the totals of a one-VM fleet; \<open>sum_totals\<close> adds such totals field by field.
\<close>

definition vm_zone :: "(zone_key \<times> totals) list \<Rightarrow> json \<Rightarrow> zone_key option" where
  "vm_zone zs vm =
     (case dict_get vm ''az_name'' JNull of
        Inl e \<Rightarrow> None
      | Inr az \<Rightarrow>
          if \<not> py_truthy az then None
          else (case hash_key az of
                  Inl e \<Rightarrow> None
                | Inr k \<Rightarrow> (case map_of zs k of None \<Rightarrow> None | Some t \<Rightarrow> Some k)))"

definition vm_amounts :: "json \<Rightarrow> py_error + totals" where
  "vm_amounts vm =
     then_do (dict_get vm ''status'' (JStr ''other'')) (\<lambda>st.
     then_do (dict_get vm ''cores'' (JInt 0)) (\<lambda>cores.
     then_do (dict_get vm ''memory_mb'' (JFloat 0)) (\<lambda>memory_mb.
     then_do (dict_get vm ''disks'' (JArr [])) (\<lambda>disks.
     then_do (py_iter disks) (\<lambda>disk_list.
     then_do (sum_size_mb disk_list 0) (\<lambda>total_disk_mb.
     then_do (num_of cores) (\<lambda>cores_n.
     then_do (py_div memory_mb 1024) (\<lambda>mem_gb.
     then_do (status_value vm ''cpu_status'' ''used_mhz'') (\<lambda>cpu.
     then_do (used_amount cpu None) (\<lambda>used_mhz.
     then_do (status_value vm ''memory_status'' ''used_mb'') (\<lambda>mem.
     then_do (used_amount mem (Some 1024)) (\<lambda>used_mem_gb.
     then_do (status_value vm ''storage_status'' ''used_mb'') (\<lambda>sto.
     then_do (used_amount sto (Some 1024)) (\<lambda>used_dsk_gb.
       Inr (add_used used_mhz used_mem_gb used_dsk_gb
             (add_provisioned cores_n mem_gb (total_disk_mb / (1024 * 1024))
               (count_vm (status_bucket st) zero_totals)))))))))))))))))"

definition contribution :: "json \<Rightarrow> totals" where
  "contribution vm = (case vm_amounts vm of Inl e \<Rightarrow> zero_totals | Inr d \<Rightarrow> d)"

definition add_totals :: "totals \<Rightarrow> totals \<Rightarrow> totals" where
  "add_totals a b =
     \<lparr>total_vms = total_vms a + total_vms b,
      vms_running = vms_running a + vms_running b,
      vms_stopped = vms_stopped a + vms_stopped b,
      vms_other = vms_other a + vms_other b,
      prov_cpu_cores = prov_cpu_cores a + prov_cpu_cores b,
      prov_memory_gb = prov_memory_gb a + prov_memory_gb b,
      prov_disk_tb = prov_disk_tb a + prov_disk_tb b,
      used_cpu_mhz = used_cpu_mhz a + used_cpu_mhz b,
      used_memory_gb = used_memory_gb a + used_memory_gb b,
      used_disk_gb = used_disk_gb a + used_disk_gb b\<rparr>"



section \<open>Simulated backends\<close>

text \<open>The request that \<open>get_vms(page_num=n, page_size=100)\<close> hands to the transport.\<close>

definition page_request :: "client \<Rightarrow> int \<Rightarrow> http_request" where
  "page_request c n =
     \<lparr>rq_method = ''GET'', rq_url = base_url c @ ''/janus/20190725/servers'',
      rq_params = JObj [(''page_num'', JInt n), (''page_size'', JInt 100)], rq_json = JNull\<rparr>"

text \<open>A well-formed page of the server: the records and the token of the next page.\<close>

definition page_response :: "json list \<Rightarrow> json \<Rightarrow> json" where
  "page_response items token =
     JObj [(''data'', JObj [(''data'', JArr items), (''next_page_num'', token)])]"

text \<open>A backend that holds a list of pages and answers a request for page \<open>n\<close> with the
  \<open>n\<close>-th of them.\<close>

definition paged_backend :: "(json list \<times> json) list \<Rightarrow> http_request list \<Rightarrow> http_request \<Rightarrow> http_outcome" where
  "paged_backend pages history rq =
     (case rq_params rq of
        JObj ps \<Rightarrow>
          (case map_of ps ''page_num'' of
             Some (JInt n) \<Rightarrow>
               (if 0 \<le> n \<and> nat n < length pages
                then Response 200 (Some (page_response (fst (pages ! nat n)) (snd (pages ! nat n))))
                else Response 404 None)
           | _ \<Rightarrow> Response 400 None)
      | _ \<Rightarrow> Response 400 None)"

text \<open>A world around a transport; its \<open>int\<close> accepts no string and its \<open>str\<close> renders
  nothing, neither being needed where identifiers are strings and tokens are numbers.\<close>

definition sim_world :: "(http_request list \<Rightarrow> http_request \<Rightarrow> http_outcome) \<Rightarrow> world" where
  "sim_world tr = \<lparr>transport = tr, int_of_str = (\<lambda>s. None), str_of = (\<lambda>v. [])\<rparr>"

text \<open>A network that is down, a gateway that answers 502 with a body that is not JSON, and a
  freshly constructed client.\<close>

definition offline :: world where
  "offline = sim_world (\<lambda>history rq. ConnectionFailed)"

definition bad_gateway :: world where
  "bad_gateway = sim_world (\<lambda>history rq. Response 502 None)"

definition client0 :: client where
  "client0 = client_init ''AK'' ''SK'' ''region'' ''service'' ''https://scp.example/'' False"

text \<open>A server that answers every request with an empty JSON object, and a VM record with
  a name and an identifier.\<close>

definition empty_ok :: world where
  "empty_ok = sim_world (\<lambda>history rq. Response 200 (Some (JObj [])))"

definition vm_rec :: "string \<Rightarrow> string \<Rightarrow> json" where
  "vm_rec nm ident = JObj [(''name'', JStr nm), (''id'', JStr ident)]"

text \<open>A server that answers the \<open>k\<close>-th request it receives with the \<open>k\<close>-th of a list of
  JSON bodies, each with status 200, and is unreachable once the list is used up.\<close>

definition scripted_backend :: "json list \<Rightarrow> http_request list \<Rightarrow> http_request \<Rightarrow> http_outcome" where
  "scripted_backend bodies history rq =
     (if length history < length bodies then Response 200 (Some (bodies ! length history))
      else ConnectionFailed)"

text \<open>A server whose first page is well formed and names page 1 as the next one, and whose
  second answer holds the records directly under \<open>data\<close>, a list where the client expects an
  object; and a server whose answer is a JSON array of records.\<close>

definition flat_second_page :: world where
  "flat_second_page = sim_world (scripted_backend
     [page_response [vm_rec ''a'' ''1''] (JInt 1), JObj [(''data'', JArr [vm_rec ''b'' ''2''])]])"

definition array_body :: world where
  "array_body = sim_world (scripted_backend [JArr [vm_rec ''a'' ''1'']])"

text \<open>The request that \<open>get_vm_details\<close> sends for an identifier that is a string, and a
  client whose cache holds two records.\<close>

definition detail_request :: "client \<Rightarrow> string \<Rightarrow> http_request" where
  "detail_request c ident =
     \<lparr>rq_method = ''GET'', rq_url = base_url c @ ''/janus/20190725/servers/'' @ ident,
      rq_params = JNull, rq_json = JNull\<rparr>"

definition cached_client :: client where
  "cached_client = client0\<lparr>all_vms_cache := Some [vm_rec ''db-01'' ''vm-7'', vm_rec ''web-server-01'' ''vm-42'']\<rparr>"

text \<open>A zone response naming the zone \<open>az1\<close>, and a VM of that zone with a given memory.\<close>

definition zone_response :: json where
  "zone_response = JObj [(''data'', JObj [(''data'', JArr [JObj [(''name'', JStr ''az1'')]])])]"

definition mem_vm :: "int \<Rightarrow> json" where
  "mem_vm mb = JObj [(''az_name'', JStr ''az1''), (''status'', JStr ''running''), (''memory_mb'', JInt mb)]"

section \<open>Theorems\<close>

subsection \<open>The date stamp\<close>

lemma zero_pad_length: "length (zero_pad w n) = w"
  by (induction w n rule: zero_pad.induct) simp_all

lemma zero_pad_2: "zero_pad 2 n = [digit_char (n div 10 mod 10), digit_char (n mod 10)]"
proof -
  have "zero_pad (Suc (Suc 0)) n = [digit_char (n div 10 mod 10), digit_char (n mod 10)]"
    by simp
  moreover have "(2::nat) = Suc (Suc 0)" by simp
  ultimately show ?thesis by (simp only:)
qed

lemma zero_pad_4:
  "zero_pad 4 n = [digit_char (n div 1000 mod 10), digit_char (n div 100 mod 10),
                   digit_char (n div 10 mod 10), digit_char (n mod 10)]"
proof -
  have d: "n div 10 div 10 = n div 100" "n div 100 div 10 = n div 1000"
    by (simp_all add: div_mult2_eq [symmetric])
  have "zero_pad (Suc (Suc (Suc (Suc 0)))) n =
      [digit_char (n div 1000 mod 10), digit_char (n div 100 mod 10),
       digit_char (n div 10 mod 10), digit_char (n mod 10)]"
    by (simp add: d)
  moreover have "(4::nat) = Suc (Suc (Suc (Suc 0)))" by simp
  ultimately show ?thesis by (simp only:)
qed

lemma digit_chars:
  "digit_char 0 = CHR ''0''" "digit_char 2 = CHR ''2''" "digit_char 4 = CHR ''4''"
  "digit_char 6 = CHR ''6''"
  by code_simp+

text \<open>
  C1 (as amended). The date stamp used in the credential scope and in the derivation of the
  signing key is the four-digit year of the request's UTC time, then the literal letter \<open>m\<close>,
  then the two-digit day of the month: seven characters, the fifth being \<open>m\<close>. The month does
  not appear in it.
\<close>

theorem datestamp_separator:
  "datestamp t = zero_pad 4 (year t) @ ''m'' @ zero_pad 2 (day t)
   \<and> length (datestamp t) = 7
   \<and> datestamp t ! 4 = CHR ''m''
   \<and> credential_scope a t =
       zero_pad 4 (year t) @ ''m'' @ zero_pad 2 (day t) @ ''/'' @ region a @ ''/'' @ service a
         @ ''/aws4_request''
   \<and> signature cr a t creq =
       hmac_sha256_hexdigest cr
         (get_signature_key cr (secret_key a) (zero_pad 4 (year t) @ ''m'' @ zero_pad 2 (day t))
            (region a) (service a))
         (encode_utf8 (string_to_sign cr a t creq))"
  by (simp add: datestamp_def credential_scope_def signature_def zero_pad_length nth_append)

text \<open>
  C1 as stated fails: on 4 November 2026 the date stamp is \<open>2026m04\<close>, not the year, a
  \<open>%\<close> and the day.
\<close>

theorem datestamp_percent_counterexample:
  "datestamp \<lparr>year = 2026, month = 11, day = 4, hour = 16, minute = 6, second = 9\<rparr> = ''2026m04''
   \<and> datestamp \<lparr>year = 2026, month = 11, day = 4, hour = 16, minute = 6, second = 9\<rparr>
        \<noteq> zero_pad 4 2026 @ ''%'' @ zero_pad 2 4"
  by (simp add: datestamp_def zero_pad_2 zero_pad_4 digit_chars)

subsection \<open>The signature and the query string\<close>

lemma map_of_ci_set: "map_of (ci_set k v hs) = (map_of hs)(lower k \<mapsto> (k, v))"
  by (induction hs) (auto simp: fun_upd_twist)

lemma ci_get_ci_set:
  "ci_get (ci_set k v hs) k' = (if lower k' = lower k then Inr v else ci_get hs k')"
  by (simp add: ci_get_def map_of_ci_set)

lemma lower_names:
  "lower ''Host'' = ''host''"
  "lower ''X-Amz-Date'' = ''x-amz-date''"
  "lower ''host'' = ''host''"
  "lower ''x-amz-date'' = ''x-amz-date''"
  "lower ''Authorization'' = ''authorization''"
  by code_simp+

lemma canonical_headers_signed:
  "canonical_headers (ci_set ''Host'' h (ci_set ''X-Amz-Date'' d hs)) signed_headers_list
     = Inr (''host:'' @ h @ [CHR 0x0A] @ ''x-amz-date:'' @ d @ [CHR 0x0A])"
  by (simp add: signed_headers_list_def ci_get_ci_set lower_names)

lemma auth_call_eq:
  "auth_call cr a t r =
     Inr (r\<lparr>req_headers :=
              ci_set ''Authorization''
                (authorization_header a t (signature cr a t (canonical_request cr r
                   (''host:'' @ url_netloc (req_url r) @ [CHR 0x0A]
                      @ ''x-amz-date:'' @ amzdate t @ [CHR 0x0A]))))
                (ci_set ''Host'' (url_netloc (req_url r))
                   (ci_set ''X-Amz-Date'' (amzdate t) (req_headers r)))\<rparr>)"
  by (simp add: auth_call_def Let_def canonical_headers_signed del: ci_set.simps)

lemma ci_get_authorization:
  "ci_get (ci_set ''Authorization'' v hs) ''Authorization'' = Inr v"
  by (simp add: ci_get_ci_set)

text \<open>
  C4. Two requests that differ only in the query component of their URL (same method, path,
  host, headers and body), signed with the same credentials at the same time: the canonical
  query string is empty for both, the canonical request and the signature are the same, the
  signer raises for neither, and both leave with the same headers, among them the same
  \<open>Authorization\<close> header.
\<close>

theorem signature_ignores_query:
  "canonical_querystring (r\<lparr>req_url := (req_url r)\<lparr>url_query := q1\<rparr>\<rparr>) = []
   \<and> canonical_querystring (r\<lparr>req_url := (req_url r)\<lparr>url_query := q2\<rparr>\<rparr>) = []
   \<and> signature cr a t (canonical_request cr (r\<lparr>req_url := (req_url r)\<lparr>url_query := q1\<rparr>\<rparr>) ch)
       = signature cr a t (canonical_request cr (r\<lparr>req_url := (req_url r)\<lparr>url_query := q2\<rparr>\<rparr>) ch)
   \<and> (\<exists>hs sig. auth_call cr a t (r\<lparr>req_url := (req_url r)\<lparr>url_query := q1\<rparr>\<rparr>)
              = Inr (r\<lparr>req_url := (req_url r)\<lparr>url_query := q1\<rparr>, req_headers := hs\<rparr>)
           \<and> auth_call cr a t (r\<lparr>req_url := (req_url r)\<lparr>url_query := q2\<rparr>\<rparr>)
              = Inr (r\<lparr>req_url := (req_url r)\<lparr>url_query := q2\<rparr>, req_headers := hs\<rparr>)
           \<and> ci_get hs ''Authorization'' = Inr (authorization_header a t sig))"
proof -
  let ?r1 = "r\<lparr>req_url := (req_url r)\<lparr>url_query := q1\<rparr>\<rparr>"
  let ?r2 = "r\<lparr>req_url := (req_url r)\<lparr>url_query := q2\<rparr>\<rparr>"
  have q: "canonical_querystring ?r1 = []" "canonical_querystring ?r2 = []"
    by (simp_all add: canonical_querystring_def)
  have creq: "canonical_request cr ?r1 x = canonical_request cr ?r2 x" for x
    by (simp add: canonical_request_def canonical_uri_def canonical_querystring_def)
  have sg: "signature cr a t (canonical_request cr ?r1 ch)
      = signature cr a t (canonical_request cr ?r2 ch)"
    by (simp only: creq)
  let ?ch = "''host:'' @ url_netloc (req_url r) @ [CHR 0x0A]
               @ ''x-amz-date:'' @ amzdate t @ [CHR 0x0A]"
  let ?sig = "signature cr a t (canonical_request cr ?r1 ?ch)"
  let ?hs = "ci_set ''Authorization'' (authorization_header a t ?sig)
               (ci_set ''Host'' (url_netloc (req_url r))
                  (ci_set ''X-Amz-Date'' (amzdate t) (req_headers r)))"
  have a1: "auth_call cr a t ?r1 = Inr (?r1\<lparr>req_headers := ?hs\<rparr>)"
    by (simp add: auth_call_eq)
  have a2: "auth_call cr a t ?r2 = Inr (?r2\<lparr>req_headers := ?hs\<rparr>)"
    by (simp add: auth_call_eq creq [symmetric])
  have g: "ci_get ?hs ''Authorization'' = Inr (authorization_header a t ?sig)"
    by (rule ci_get_authorization)
  from a1 a2 g have "\<exists>hs sig. auth_call cr a t ?r1 = Inr (?r1\<lparr>req_headers := hs\<rparr>)
      \<and> auth_call cr a t ?r2 = Inr (?r2\<lparr>req_headers := hs\<rparr>)
      \<and> ci_get hs ''Authorization'' = Inr (authorization_header a t sig)"
    by blast
  with q sg show ?thesis by blast
qed


subsection \<open>Requests\<close>

lemma send_request_state:
  "snd (send_request w m p ps jd c)
     = c\<lparr>sent := sent c @ [\<lparr>rq_method = m, rq_url = base_url c @ p, rq_params = ps, rq_json = jd\<rparr>]\<rparr>"
  by (simp add: send_request_def Let_def split: http_outcome.splits option.splits)

lemma send_request_fst:
  "fst (send_request w m p ps jd c)
     = (case transport w (sent c)
               \<lparr>rq_method = m, rq_url = base_url c @ p, rq_params = ps, rq_json = jd\<rparr> of
          ConnectionFailed \<Rightarrow> Inr JNull
        | Response code body \<Rightarrow>
            (if is_http_error code then (case body of None \<Rightarrow> Inl JSONDecodeError | Some j \<Rightarrow> Inr j)
             else (case body of None \<Rightarrow> Inr JNull | Some j \<Rightarrow> Inr j)))"
  by (simp add: send_request_def Let_def split: http_outcome.splits option.splits)

lemma get_vms_state:
  "snd (get_vms w (JInt n) (JInt 100) c) = c\<lparr>sent := sent c @ [page_request c n]\<rparr>"
  by (simp add: get_vms_def send_request_state page_request_def)

lemma get_vms_pair:
  "get_vms w (JInt n) (JInt 100) c
     = (fst (get_vms w (JInt n) (JInt 100) c), c\<lparr>sent := sent c @ [page_request c n]\<rparr>)"
  by (metis get_vms_state prod.collapse)

lemma get_vms_fst:
  "fst (get_vms w (JInt n) (JInt 100) c)
     = (case transport w (sent c) (page_request c n) of
          ConnectionFailed \<Rightarrow> Inr JNull
        | Response code body \<Rightarrow>
            (if is_http_error code then (case body of None \<Rightarrow> Inl JSONDecodeError | Some j \<Rightarrow> Inr j)
             else (case body of None \<Rightarrow> Inr JNull | Some j \<Rightarrow> Inr j)))"
  by (simp add: get_vms_def send_request_fst page_request_def)

lemma page_request_sent [simp]: "page_request (c\<lparr>sent := x\<rparr>) n = page_request c n"
  by (simp add: page_request_def)

lemma client0_fields:
  "base_url client0 = ''https://scp.example''" "sent client0 = []" "all_vms_cache client0 = None"
  by (simp_all add: client0_def client_init_def rstrip_def)

lemma send_request_outcomes:
  "(transport w (sent c) \<lparr>rq_method = m, rq_url = base_url c @ p, rq_params = ps, rq_json = jd\<rparr>
       = Response code (Some j) \<longrightarrow> fst (send_request w m p ps jd c) = Inr j)
   \<and> (transport w (sent c) \<lparr>rq_method = m, rq_url = base_url c @ p, rq_params = ps, rq_json = jd\<rparr>
       = ConnectionFailed \<longrightarrow> fst (send_request w m p ps jd c) = Inr JNull)
   \<and> (transport w (sent c) \<lparr>rq_method = m, rq_url = base_url c @ p, rq_params = ps, rq_json = jd\<rparr>
       = Response code None \<and> \<not> is_http_error code \<longrightarrow> fst (send_request w m p ps jd c) = Inr JNull)
   \<and> (transport w (sent c) \<lparr>rq_method = m, rq_url = base_url c @ p, rq_params = ps, rq_json = jd\<rparr>
       = Response code None \<and> is_http_error code
         \<longrightarrow> fst (send_request w m p ps jd c) = Inl JSONDecodeError)"
  by (simp add: send_request_fst)

text \<open>
  C6. \<open>send_request\<close> returns the decoded body on success and on an error status whose body
  decodes, and \<open>None\<close> on a transport failure and on a success body that is not JSON (lemma
  \<open>send_request_outcomes\<close>). The claim that no decoding failure leaves the function does not
  hold: a 502 answer whose body is not JSON makes \<open>send_request\<close> raise the decoding error.
\<close>

theorem send_request_undecodable_error_body:
  "send_request bad_gateway ''GET'' ''/janus/20190725/azs'' JNull JNull client0
     = (Inl JSONDecodeError,
        client0\<lparr>sent := [\<lparr>rq_method = ''GET'', rq_url = ''https://scp.example/janus/20190725/azs'',
                            rq_params = JNull, rq_json = JNull\<rparr>]\<rparr>)"
  by (simp add: send_request_def bad_gateway_def sim_world_def is_http_error_def client0_fields)

text \<open>
  C9. \<open>get_vm_details\<close>, \<open>get_vm_snapshots\<close> and \<open>get_vm_backups\<close> raise \<open>ValueError\<close> for a
  \<open>vm_id\<close> that is \<open>None\<close> or empty, the client being left as it was and no request sent; for
  any other \<open>vm_id\<close> each sends exactly one GET whose path holds the identifier.
\<close>

theorem vm_id_required:
  "(\<not> py_truthy vm_id \<longrightarrow>
       get_vm_details w vm_id c = (Inl ValueError, c)
     \<and> get_vm_snapshots w vm_id c = (Inl ValueError, c)
     \<and> get_vm_backups w vm_id c = (Inl ValueError, c))
   \<and> (py_truthy vm_id \<longrightarrow>
       snd (get_vm_details w vm_id c)
         = c\<lparr>sent := sent c @ [\<lparr>rq_method = ''GET'',
              rq_url = base_url c @ ''/janus/20190725/servers/'' @ format_value w vm_id,
              rq_params = JNull, rq_json = JNull\<rparr>]\<rparr>
     \<and> snd (get_vm_snapshots w vm_id c)
         = c\<lparr>sent := sent c @ [\<lparr>rq_method = ''GET'',
              rq_url = base_url c @ ''/janus/20190725/servers/'' @ format_value w vm_id @ ''/snapshots'',
              rq_params = JNull, rq_json = JNull\<rparr>]\<rparr>
     \<and> snd (get_vm_backups w vm_id c)
         = c\<lparr>sent := sent c @ [\<lparr>rq_method = ''GET'',
              rq_url = base_url c @ ''/janus/20190725/servers/'' @ format_value w vm_id @ ''/backups'',
              rq_params = JNull, rq_json = JNull\<rparr>]\<rparr>)
   \<and> \<not> py_truthy JNull
   \<and> py_truthy (JStr s) = (s \<noteq> [])
   \<and> format_value w (JStr s) = s"
  by (simp add: get_vm_details_def get_vm_snapshots_def get_vm_backups_def send_request_state
      format_value_def)

theorem vm_id_required_witness:
  "get_vm_details offline JNull client0 = (Inl ValueError, client0)
   \<and> get_vm_snapshots offline (JStr []) client0 = (Inl ValueError, client0)
   \<and> get_vm_backups offline (JStr []) client0 = (Inl ValueError, client0)
   \<and> snd (get_vm_details offline (JStr ''vm-42'') client0)
       = client0\<lparr>sent := [\<lparr>rq_method = ''GET'',
            rq_url = ''https://scp.example/janus/20190725/servers/vm-42'',
            rq_params = JNull, rq_json = JNull\<rparr>]\<rparr>
   \<and> snd (get_vm_snapshots offline (JStr ''vm-42'') client0)
       = client0\<lparr>sent := [\<lparr>rq_method = ''GET'',
            rq_url = ''https://scp.example/janus/20190725/servers/vm-42/snapshots'',
            rq_params = JNull, rq_json = JNull\<rparr>]\<rparr>
   \<and> snd (get_vm_backups offline (JStr ''vm-42'') client0)
       = client0\<lparr>sent := [\<lparr>rq_method = ''GET'',
            rq_url = ''https://scp.example/janus/20190725/servers/vm-42/backups'',
            rq_params = JNull, rq_json = JNull\<rparr>]\<rparr>"
  using vm_id_required [of JNull offline client0 "''vm-42''"]
        vm_id_required [of "JStr []" offline client0 "''vm-42''"]
        vm_id_required [of "JStr ''vm-42''" offline client0 "''vm-42''"]
  by (simp add: client0_fields)

subsection \<open>The full scan and the cache\<close>

lemma scan_pages_sent:
  assumes "scan_pages w acc n c = Some y"
  shows "\<exists>ns. snd y = c\<lparr>sent := sent c @ map (page_request c) (n # ns)\<rparr>"
proof (rule scan_pages.raw_induct
    [where P = "\<lambda>w acc n c y. \<exists>ns. snd y = c\<lparr>sent := sent c @ map (page_request c) (n # ns)\<rparr>",
     OF _ assms])
  fix sp w acc n c y
  assume IH: "\<And>w acc n c y. sp w acc n c = Some y \<Longrightarrow>
      \<exists>ns. snd y = c\<lparr>sent := sent c @ map (page_request c) (n # ns)\<rparr>"
    and eq: "(case get_vms w (JInt n) (JInt 100) c of
        (Inl e, c1) \<Rightarrow> Some (Inl e, c1)
      | (Inr response, c1) \<Rightarrow>
          (case page_round w acc response of
             Inl e \<Rightarrow> Some (Inl e, c1)
           | Inr (Break vms) \<Rightarrow> Some (Inr vms, c1)
           | Inr (Continue vms n) \<Rightarrow> sp w vms n c1)) = Some y"
  let ?c1 = "c\<lparr>sent := sent c @ [page_request c n]\<rparr>"
  obtain r where g: "get_vms w (JInt n) (JInt 100) c = (r, ?c1)"
    using get_vms_pair by blast
  show "\<exists>ns. snd y = c\<lparr>sent := sent c @ map (page_request c) (n # ns)\<rparr>"
  proof (cases r)
    case (Inl e)
    with eq g have "y = (Inl e, ?c1)" by simp
    then have "snd y = c\<lparr>sent := sent c @ map (page_request c) (n # [])\<rparr>" by simp
    then show ?thesis by blast
  next
    case (Inr resp)
    show ?thesis
    proof (cases "page_round w acc resp")
      case (Inl e)
      with eq g Inr have "y = (Inl e, ?c1)" by simp
      then have "snd y = c\<lparr>sent := sent c @ map (page_request c) (n # [])\<rparr>" by simp
      then show ?thesis by blast
    next
      case (Inr st)
      show ?thesis
      proof (cases st)
        case (Break vms)
        with eq g \<open>r = Inr resp\<close> Inr have "y = (Inr vms, ?c1)" by simp
        then have "snd y = c\<lparr>sent := sent c @ map (page_request c) (n # [])\<rparr>" by simp
        then show ?thesis by blast
      next
        case (Continue vms m)
        with eq g \<open>r = Inr resp\<close> Inr have "sp w vms m ?c1 = Some y" by simp
        from IH [OF this] obtain ns where
          "snd y = ?c1\<lparr>sent := sent ?c1 @ map (page_request ?c1) (m # ns)\<rparr>" by blast
        then have "snd y = c\<lparr>sent := sent c @ map (page_request c) (n # m # ns)\<rparr>" by simp
        then show ?thesis by blast
      qed
    qed
  qed
qed

lemma scan_pages_unfold:
  "scan_pages w acc n c =
     (case fst (get_vms w (JInt n) (JInt 100) c) of
        Inl e \<Rightarrow> Some (Inl e, c\<lparr>sent := sent c @ [page_request c n]\<rparr>)
      | Inr resp \<Rightarrow>
          (case page_round w acc resp of
             Inl e \<Rightarrow> Some (Inl e, c\<lparr>sent := sent c @ [page_request c n]\<rparr>)
           | Inr (Break vms) \<Rightarrow> Some (Inr vms, c\<lparr>sent := sent c @ [page_request c n]\<rparr>)
           | Inr (Continue vms m) \<Rightarrow> scan_pages w vms m (c\<lparr>sent := sent c @ [page_request c n]\<rparr>)))"
  apply (subst scan_pages.simps)
  apply (subst get_vms_pair)
  apply (simp split: sum.splits)
  done

lemma page_round_not_ok: "page_ok resp = Inr False \<Longrightarrow> page_round w acc resp = Inr (Break acc)"
  by (simp add: page_round_def then_do_def)

lemma subscript_Inr: "subscript v k = Inr x \<Longrightarrow> \<exists>kvs. v = JObj kvs \<and> map_of kvs k = Some x"
  by (cases v) (auto split: option.splits)

lemma page_round_shape:
  assumes "subscript resp ''data'' = Inr d"
    and "subscript d ''data'' = Inr (JArr items)"
    and "dict_get d ''next_page_num'' JNull = Inr tok"
  shows "page_round w acc resp =
     (if \<not> py_truthy tok \<or> items = [] then Inr (Break (acc @ items))
      else then_do (py_int w tok) (\<lambda>m. Inr (Continue (acc @ items) m)))"
proof -
  from assms(1) obtain kvs where r: "resp = JObj kvs" "map_of kvs ''data'' = Some d"
    using subscript_Inr by blast
  from assms(2) obtain ds where d: "d = JObj ds" "map_of ds ''data'' = Some (JArr items)"
    using subscript_Inr by blast
  from r have k: "kvs \<noteq> []" by auto
  from d have k': "ds \<noteq> []" by auto
  have ok: "page_ok resp = Inr True"
    using r d k k' by (simp add: page_ok_def then_do_def)
  show ?thesis
    using ok assms r d by (simp add: page_round_def then_do_def)
qed

lemma get_all_vms_cached:
  "all_vms_cache c = Some xs \<Longrightarrow> get_all_vms w True c = Some (Inr xs, c)"
  by (simp add: get_all_vms_def)


lemma get_all_vms_scans:
  "(uc \<longrightarrow> all_vms_cache c = None) \<Longrightarrow>
   get_all_vms w uc c =
     (case scan_pages w [] 0 c of
        None \<Rightarrow> None
      | Some (Inl e, c1) \<Rightarrow> Some (Inl e, c1)
      | Some (Inr all_vms, c1) \<Rightarrow> Some (Inr all_vms, c1\<lparr>all_vms_cache := Some all_vms\<rparr>))"
  by (auto simp: get_all_vms_def)

lemma get_all_vms_sent:
  assumes "uc \<longrightarrow> all_vms_cache c = None" and "get_all_vms w uc c = Some (r, c')"
  shows "\<exists>ns. sent c' = sent c @ map (page_request c) (0 # ns)"
proof -
  from assms obtain y where y: "scan_pages w [] 0 c = Some y" and
    c': "sent c' = sent (snd y)"
    by (auto simp: get_all_vms_scans split: option.splits sum.splits prod.splits)
  from scan_pages_sent [OF y] c' show ?thesis by auto
qed

lemma scan_offline:
  "transport w (sent c) (page_request c n) = ConnectionFailed \<Longrightarrow>
   scan_pages w acc n c = Some (Inr acc, c\<lparr>sent := sent c @ [page_request c n]\<rparr>)"
  by (simp add: scan_pages_unfold get_vms_fst page_round_def page_ok_def then_do_def)



lemma scan_pages_not_ok:
  "fst (get_vms w (JInt n) (JInt 100) c) = Inr resp \<Longrightarrow> page_ok resp = Inr False \<Longrightarrow>
   scan_pages w acc n c = Some (Inr acc, c\<lparr>sent := sent c @ [page_request c n]\<rparr>)"
  by (simp add: scan_pages_unfold page_round_not_ok)

lemma scan_pages_page:
  assumes "fst (get_vms w (JInt n) (JInt 100) c) = Inr resp"
    and "subscript resp ''data'' = Inr d"
    and "subscript d ''data'' = Inr (JArr items)"
    and "dict_get d ''next_page_num'' JNull = Inr tok"
  shows "scan_pages w acc n c =
     (if items = [] \<or> \<not> py_truthy tok
      then Some (Inr (acc @ items), c\<lparr>sent := sent c @ [page_request c n]\<rparr>)
      else (case py_int w tok of
              Inl e \<Rightarrow> Some (Inl e, c\<lparr>sent := sent c @ [page_request c n]\<rparr>)
            | Inr m \<Rightarrow> scan_pages w (acc @ items) m (c\<lparr>sent := sent c @ [page_request c n]\<rparr>)))"
  apply (subst scan_pages_unfold)
  apply (simp add: assms(1) page_round_shape [OF assms(2,3,4)] then_do_def split: sum.splits)
  done

lemma page_response_shape:
  "subscript (page_response items tok) ''data'' = Inr (JObj [(''data'', JArr items), (''next_page_num'', tok)])"
  "subscript (JObj [(''data'', JArr items), (''next_page_num'', tok)]) ''data'' = Inr (JArr items)"
  "dict_get (JObj [(''data'', JArr items), (''next_page_num'', tok)]) ''next_page_num'' JNull = Inr tok"
  by (simp_all add: page_response_def)

lemma paged_answer:
  "0 \<le> n \<Longrightarrow> nat n < length pages \<Longrightarrow>
   fst (get_vms (sim_world (paged_backend pages)) (JInt n) (JInt 100) c)
     = Inr (page_response (fst (pages ! nat n)) (snd (pages ! nat n)))"
  by (simp add: get_vms_fst sim_world_def paged_backend_def page_request_def is_http_error_def)

lemma scan_paged:
  assumes "0 \<le> n" and "nat n < length pages"
  shows "scan_pages (sim_world (paged_backend pages)) acc n c =
     (if fst (pages ! nat n) = [] \<or> \<not> py_truthy (snd (pages ! nat n))
      then Some (Inr (acc @ fst (pages ! nat n)), c\<lparr>sent := sent c @ [page_request c n]\<rparr>)
      else (case py_int (sim_world (paged_backend pages)) (snd (pages ! nat n)) of
              Inl e \<Rightarrow> Some (Inl e, c\<lparr>sent := sent c @ [page_request c n]\<rparr>)
            | Inr m \<Rightarrow> scan_pages (sim_world (paged_backend pages)) (acc @ fst (pages ! nat n)) m
                        (c\<lparr>sent := sent c @ [page_request c n]\<rparr>)))"
  by (rule scan_pages_page [OF paged_answer [OF assms] page_response_shape])

lemma scan_four_pages:
  assumes "p0 \<noteq> []" "p1 \<noteq> []" "p2 \<noteq> []"
  shows "scan_pages (sim_world (paged_backend [(p0, JInt 1), (p1, JInt 2), (p2, JInt 3), ([], JNull)])) [] 0 c
     = Some (Inr (p0 @ p1 @ p2), c\<lparr>sent := sent c @ map (page_request c) [0, 1, 2, 3]\<rparr>)"
proof -
  let ?W = "sim_world (paged_backend [(p0, JInt 1), (p1, JInt 2), (p2, JInt 3), ([], JNull)])"
  let ?c1 = "c\<lparr>sent := sent c @ [page_request c 0]\<rparr>"
  let ?c2 = "c\<lparr>sent := sent c @ [page_request c 0, page_request c 1]\<rparr>"
  let ?c3 = "c\<lparr>sent := sent c @ [page_request c 0, page_request c 1, page_request c 2]\<rparr>"
  have s3: "scan_pages ?W (p0 @ p1 @ p2) 3 ?c3
      = Some (Inr (p0 @ p1 @ p2), c\<lparr>sent := sent c @ map (page_request c) [0, 1, 2, 3]\<rparr>)"
    by (subst scan_paged) simp_all
  have s2: "scan_pages ?W (p0 @ p1) 2 ?c2 = scan_pages ?W (p0 @ p1 @ p2) 3 ?c3"
    using assms by (subst scan_paged) simp_all
  have s1: "scan_pages ?W p0 1 ?c1 = scan_pages ?W (p0 @ p1) 2 ?c2"
    using assms by (subst scan_paged) simp_all
  have s0: "scan_pages ?W [] 0 c = scan_pages ?W p0 1 ?c1"
    using assms by (subst scan_paged) simp_all
  from s0 s1 s2 s3 show ?thesis by simp
qed

lemma scan_empty_ok:
  "scan_pages empty_ok acc n c = Some (Inr acc, c\<lparr>sent := sent c @ [page_request c n]\<rparr>)"
  by (rule scan_pages_not_ok [where resp = "JObj []"])
     (simp_all add: get_vms_fst empty_ok_def sim_world_def is_http_error_def page_ok_def)

lemma get_vms_empty_ok: "fst (get_vms empty_ok (JInt n) (JInt 100) c) = Inr (JObj [])"
  by (simp add: get_vms_fst empty_ok_def sim_world_def is_http_error_def)

lemma get_all_vms_offline:
  "(uc \<longrightarrow> all_vms_cache c = None) \<Longrightarrow>
   get_all_vms offline uc c
     = Some (Inr [], c\<lparr>sent := sent c @ [page_request c 0], all_vms_cache := Some []\<rparr>)"
  by (simp add: get_all_vms_scans scan_offline offline_def sim_world_def)

text \<open>
  What the scan does where the guard of line 165 evaluates. When the cache is not consulted
  (it is unpopulated, or \<open>use_cache\<close> is false), the requests that \<open>get_all_vms\<close> sends are
  page requests, all with page size 100, the first for page 0. A round of the loop whose
  guard evaluates to false ends the loop with the records gathered so far; a round whose page
  is well formed adds its records and ends the loop when the page is empty or carries no
  next-page token, and otherwise goes on with the page that the token names. Against a
  backend with pages of 100, 100, 37 and 0 records, the first three with a token, the call
  returns the 237 records in the order of the server and sends exactly the four requests for
  pages 0, 1, 2 and 3.
\<close>

lemma get_all_vms_pagination:
  "((uc \<longrightarrow> all_vms_cache c = None) \<and> get_all_vms w uc c = Some (r, c')
       \<longrightarrow> (\<exists>ns. sent c' = sent c @ map (page_request c) (0 # ns)))
   \<and> (fst (get_vms w (JInt n) (JInt 100) c) = Inr resp \<and> page_ok resp = Inr False
       \<longrightarrow> scan_pages w acc n c = Some (Inr acc, c\<lparr>sent := sent c @ [page_request c n]\<rparr>))
   \<and> (fst (get_vms w (JInt n) (JInt 100) c) = Inr resp
        \<and> subscript resp ''data'' = Inr d
        \<and> subscript d ''data'' = Inr (JArr items)
        \<and> dict_get d ''next_page_num'' JNull = Inr tok
       \<longrightarrow> scan_pages w acc n c =
            (if items = [] \<or> \<not> py_truthy tok
             then Some (Inr (acc @ items), c\<lparr>sent := sent c @ [page_request c n]\<rparr>)
             else (case py_int w tok of
                     Inl e \<Rightarrow> Some (Inl e, c\<lparr>sent := sent c @ [page_request c n]\<rparr>)
                   | Inr m \<Rightarrow> scan_pages w (acc @ items) m
                               (c\<lparr>sent := sent c @ [page_request c n]\<rparr>))))
   \<and> (length p0 = 100 \<and> length p1 = 100 \<and> length p2 = 37 \<and> (uc \<longrightarrow> all_vms_cache c = None)
       \<longrightarrow> get_all_vms (sim_world (paged_backend [(p0, JInt 1), (p1, JInt 2), (p2, JInt 3), ([], JNull)])) uc c
            = Some (Inr (p0 @ p1 @ p2),
                    c\<lparr>sent := sent c @ map (page_request c) [0, 1, 2, 3],
                      all_vms_cache := Some (p0 @ p1 @ p2)\<rparr>)
         \<and> length (p0 @ p1 @ p2) = 237
         \<and> length (map (page_request c) [0, 1, 2, 3]) = 4)"
proof -
  have a: "(uc \<longrightarrow> all_vms_cache c = None) \<and> get_all_vms w uc c = Some (r, c')
       \<longrightarrow> (\<exists>ns. sent c' = sent c @ map (page_request c) (0 # ns))"
    using get_all_vms_sent by blast
  have b: "fst (get_vms w (JInt n) (JInt 100) c) = Inr resp \<and> page_ok resp = Inr False
       \<longrightarrow> scan_pages w acc n c = Some (Inr acc, c\<lparr>sent := sent c @ [page_request c n]\<rparr>)"
    using scan_pages_not_ok by blast
  have c: "fst (get_vms w (JInt n) (JInt 100) c) = Inr resp
        \<and> subscript resp ''data'' = Inr d
        \<and> subscript d ''data'' = Inr (JArr items)
        \<and> dict_get d ''next_page_num'' JNull = Inr tok
       \<longrightarrow> scan_pages w acc n c =
            (if items = [] \<or> \<not> py_truthy tok
             then Some (Inr (acc @ items), c\<lparr>sent := sent c @ [page_request c n]\<rparr>)
             else (case py_int w tok of
                     Inl e \<Rightarrow> Some (Inl e, c\<lparr>sent := sent c @ [page_request c n]\<rparr>)
                   | Inr m \<Rightarrow> scan_pages w (acc @ items) m
                               (c\<lparr>sent := sent c @ [page_request c n]\<rparr>)))"
    using scan_pages_page by blast
  have d: "length p0 = 100 \<and> length p1 = 100 \<and> length p2 = 37 \<and> (uc \<longrightarrow> all_vms_cache c = None)
       \<longrightarrow> get_all_vms (sim_world (paged_backend [(p0, JInt 1), (p1, JInt 2), (p2, JInt 3), ([], JNull)])) uc c
            = Some (Inr (p0 @ p1 @ p2),
                    c\<lparr>sent := sent c @ map (page_request c) [0, 1, 2, 3],
                      all_vms_cache := Some (p0 @ p1 @ p2)\<rparr>)
         \<and> length (p0 @ p1 @ p2) = 237
         \<and> length (map (page_request c) [0, 1, 2, 3]) = 4"
  proof (intro impI, elim conjE)
    assume l: "length p0 = 100" "length p1 = 100" "length p2 = 37"
      and u: "uc \<longrightarrow> all_vms_cache c = None"
    from l have ne: "p0 \<noteq> []" "p1 \<noteq> []" "p2 \<noteq> []" by auto
    show "get_all_vms (sim_world (paged_backend [(p0, JInt 1), (p1, JInt 2), (p2, JInt 3), ([], JNull)])) uc c
            = Some (Inr (p0 @ p1 @ p2),
                    c\<lparr>sent := sent c @ map (page_request c) [0, 1, 2, 3],
                      all_vms_cache := Some (p0 @ p1 @ p2)\<rparr>)
         \<and> length (p0 @ p1 @ p2) = 237
         \<and> length (map (page_request c) [0, 1, 2, 3]) = 4"
      using l by (simp add: get_all_vms_scans [OF u] scan_four_pages [OF ne])
  qed
  from a b c d show ?thesis by (intro conjI)
qed

lemma get_all_vms_pagination_witness:
  "(\<exists>ns. [page_request client0 0] = map (page_request client0) (0 # ns))
   \<and> scan_pages empty_ok [] 0 client0 = Some (Inr [], client0\<lparr>sent := [page_request client0 0]\<rparr>)
   \<and> scan_pages (sim_world (paged_backend [([vm_rec ''a'' ''1''], JNull)])) [] 0 client0
       = Some (Inr [vm_rec ''a'' ''1''], client0\<lparr>sent := [page_request client0 0]\<rparr>)
   \<and> get_all_vms (sim_world (paged_backend
         [(replicate 100 (vm_rec ''a'' ''1''), JInt 1), (replicate 100 (vm_rec ''b'' ''2''), JInt 2),
          (replicate 37 (vm_rec ''c'' ''3''), JInt 3), ([], JNull)])) False client0
       = Some (Inr (replicate 100 (vm_rec ''a'' ''1'') @ replicate 100 (vm_rec ''b'' ''2'')
                    @ replicate 37 (vm_rec ''c'' ''3'')),
               client0\<lparr>sent := map (page_request client0) [0, 1, 2, 3],
                 all_vms_cache := Some (replicate 100 (vm_rec ''a'' ''1'') @ replicate 100 (vm_rec ''b'' ''2'')
                    @ replicate 37 (vm_rec ''c'' ''3''))\<rparr>)
   \<and> length (replicate 100 (vm_rec ''a'' ''1'') @ replicate 100 (vm_rec ''b'' ''2'')
             @ replicate 37 (vm_rec ''c'' ''3'')) = 237"
proof -
  let ?c1 = "client0\<lparr>sent := [page_request client0 0], all_vms_cache := Some []\<rparr>"
  have g: "get_all_vms offline False client0 = Some (Inr [], ?c1)"
    by (simp add: get_all_vms_offline client0_fields)
  have a: "\<exists>ns. [page_request client0 0] = map (page_request client0) (0 # ns)"
    using g get_all_vms_pagination [where uc = False and c = client0 and w = offline
        and r = "Inr []" and c' = ?c1]
    by (simp add: client0_fields)
  have b: "scan_pages empty_ok [] 0 client0 = Some (Inr [], client0\<lparr>sent := [page_request client0 0]\<rparr>)"
    using get_all_vms_pagination [where w = empty_ok and n = 0 and c = client0 and resp = "JObj []"
        and acc = "[]"]
    by (simp add: get_vms_empty_ok page_ok_def client0_fields)
  let ?W = "sim_world (paged_backend [([vm_rec ''a'' ''1''], JNull)])"
  have r: "fst (get_vms ?W (JInt 0) (JInt 100) client0) = Inr (page_response [vm_rec ''a'' ''1''] JNull)"
    by (simp add: paged_answer)
  have c: "scan_pages ?W [] 0 client0
       = Some (Inr [vm_rec ''a'' ''1''], client0\<lparr>sent := [page_request client0 0]\<rparr>)"
    using r get_all_vms_pagination [where w = ?W and n = 0 and c = client0
        and resp = "page_response [vm_rec ''a'' ''1''] JNull"
        and d = "JObj [(''data'', JArr [vm_rec ''a'' ''1'']), (''next_page_num'', JNull)]"
        and items = "[vm_rec ''a'' ''1'']" and tok = JNull and acc = "[]"]
    by (simp add: page_response_shape client0_fields)
  have d: "get_all_vms (sim_world (paged_backend
         [(replicate 100 (vm_rec ''a'' ''1''), JInt 1), (replicate 100 (vm_rec ''b'' ''2''), JInt 2),
          (replicate 37 (vm_rec ''c'' ''3''), JInt 3), ([], JNull)])) False client0
       = Some (Inr (replicate 100 (vm_rec ''a'' ''1'') @ replicate 100 (vm_rec ''b'' ''2'')
                    @ replicate 37 (vm_rec ''c'' ''3'')),
               client0\<lparr>sent := map (page_request client0) [0, 1, 2, 3],
                 all_vms_cache := Some (replicate 100 (vm_rec ''a'' ''1'') @ replicate 100 (vm_rec ''b'' ''2'')
                    @ replicate 37 (vm_rec ''c'' ''3''))\<rparr>)
   \<and> length (replicate 100 (vm_rec ''a'' ''1'') @ replicate 100 (vm_rec ''b'' ''2'')
             @ replicate 37 (vm_rec ''c'' ''3'')) = 237"
    using get_all_vms_pagination [where ?p0.0 = "replicate 100 (vm_rec ''a'' ''1'')"
        and ?p1.0 = "replicate 100 (vm_rec ''b'' ''2'')" and ?p2.0 = "replicate 37 (vm_rec ''c'' ''3'')"
        and uc = False and c = client0]
    by (simp add: client0_fields)
  from a b c d show ?thesis by (intro conjI) simp_all
qed

lemma scripted_first:
  "fst (get_vms (sim_world (scripted_backend (b # bs))) (JInt n) (JInt 100) client0) = Inr b"
  by (simp add: get_vms_fst sim_world_def scripted_backend_def client0_fields is_http_error_def)

lemma scripted_second:
  "fst (get_vms (sim_world (scripted_backend (a # b # bs))) (JInt n) (JInt 100)
          (client0\<lparr>sent := [rq]\<rparr>)) = Inr b"
  by (simp add: get_vms_fst sim_world_def scripted_backend_def is_http_error_def)

lemma page_round_flat: "page_round w acc (JObj [(''data'', JArr (x # xs))]) = Inl AttributeError"
  by (simp add: page_round_def page_ok_def then_do_def)

lemma page_round_array: "page_round w acc (JArr (x # xs)) = Inl AttributeError"
  by (simp add: page_round_def page_ok_def then_do_def)

text \<open>
  C2. The scan does not stop at every malformed response. The guard
  \<open>response and response.get('data') and isinstance(response['data'].get('data'), list)\<close>
  ends the loop for a response that is \<open>None\<close> or empty, or an object without a list under
  \<open>data.data\<close>, but it calls \<open>get\<close> on whatever it is given: a non-empty response that is not
  an object, or whose \<open>data\<close> is a non-empty value that is not an object, raises
  \<open>AttributeError\<close> out of \<open>get_all_vms\<close>. Against a server whose first page is well formed,
  with one record and the token 1, and whose second answer is \<open>{"data": [record]}\<close>, the call
  sends the requests for pages 0 and 1 and raises: the record of page 0 is not returned and
  the cache stays unwritten. Against a server that answers with a JSON array of records, the
  call raises after its first request.
\<close>

theorem get_all_vms_malformed_page_raises:
  "get_all_vms flat_second_page False client0
     = Some (Inl AttributeError, client0\<lparr>sent := [page_request client0 0, page_request client0 1]\<rparr>)
   \<and> all_vms_cache (client0\<lparr>sent := [page_request client0 0, page_request client0 1]\<rparr>) = None
   \<and> get_all_vms array_body False client0
     = Some (Inl AttributeError, client0\<lparr>sent := [page_request client0 0]\<rparr>)
   \<and> all_vms_cache (client0\<lparr>sent := [page_request client0 0]\<rparr>) = None"
proof -
  let ?c1 = "client0\<lparr>sent := [page_request client0 0]\<rparr>"
  have p0: "page_round w [] (page_response [vm_rec ''a'' ''1''] (JInt 1))
      = Inr (Continue [vm_rec ''a'' ''1''] 1)" for w
    by (simp add: page_round_shape [OF page_response_shape] then_do_def)
  have s1: "scan_pages flat_second_page [vm_rec ''a'' ''1''] 1 ?c1
      = Some (Inl AttributeError, client0\<lparr>sent := [page_request client0 0, page_request client0 1]\<rparr>)"
    by (subst scan_pages_unfold)
       (simp add: flat_second_page_def scripted_second page_round_flat page_request_def)
  have s0: "scan_pages flat_second_page [] 0 client0
      = Some (Inl AttributeError, client0\<lparr>sent := [page_request client0 0, page_request client0 1]\<rparr>)"
    apply (subst scan_pages_unfold)
    apply (simp add: flat_second_page_def scripted_first p0 client0_fields)
    apply (simp add: s1 [unfolded flat_second_page_def])
    done
  have a0: "scan_pages array_body [] 0 client0 = Some (Inl AttributeError, ?c1)"
    by (subst scan_pages_unfold)
       (simp add: array_body_def scripted_first page_round_array client0_fields)
  show ?thesis
    by (simp add: get_all_vms_scans s0 a0 client0_fields)
qed

lemma page_request_cache [simp]: "page_request (c\<lparr>all_vms_cache := x\<rparr>) n = page_request c n"
  by (simp add: page_request_def)





subsection \<open>Look-up by identifier or name\<close>

lemma is_uuid_examples:
  "is_uuid ''550e8400-e29b-41d4-a716-446655440000''"
  "\<not> is_uuid ''web-server-01''"
  by code_simp+

lemma is_uuid_nonempty: "is_uuid s \<Longrightarrow> s \<noteq> []"
  by (auto simp: is_uuid_def)

lemma first_named_none:
  "(\<forall>v\<in>set vms. \<exists>n. dict_get v ''name'' JNull = Inr n \<and> n \<noteq> JStr ident)
   \<Longrightarrow> first_named vms ident = Inr JNull"
  by (induction vms) (auto simp: then_do_def)

lemma first_named_first:
  "(\<forall>v\<in>set pre. \<exists>n. dict_get v ''name'' JNull = Inr n \<and> n \<noteq> JStr ident)
   \<Longrightarrow> dict_get vm ''name'' JNull = Inr (JStr ident)
   \<Longrightarrow> first_named (pre @ vm # post) ident = Inr vm"
  by (induction pre) (auto simp: then_do_def)

lemma named_truthy: "dict_get vm ''name'' JNull = Inr (JStr ident) \<Longrightarrow> py_truthy vm"
  by (cases vm) auto

lemma get_vm_details_sent:
  "\<exists>rest. sent (snd (get_vm_details w i c)) = sent c @ rest"
  by (simp add: get_vm_details_def send_request_state)

lemma get_vm_details_str:
  "s \<noteq> [] \<Longrightarrow>
   snd (get_vm_details w (JStr s) c) = c\<lparr>sent := sent c @ [detail_request c s]\<rparr>"
  by (simp add: get_vm_details_def send_request_state format_value_def detail_request_def)

lemma find_vm_uuid: "is_uuid ident \<Longrightarrow> find_vm w ident c = Some (get_vm_details w (JStr ident) c)"
  by (simp add: find_vm_def)

lemma find_vm_name:
  assumes "\<not> is_uuid ident" and "get_all_vms w True c = Some (Inr vms, c1)"
    and "first_named vms ident = Inr t"
  shows "find_vm w ident c =
     (if py_truthy t then
        (case dict_get t ''id'' JNull of
           Inl e \<Rightarrow> Some (Inl e, c1)
         | Inr i \<Rightarrow> Some (get_vm_details w i c1))
      else Some (Inr JNull, c1))"
  using assms by (simp add: find_vm_def)

lemma find_vm_scans:
  assumes "\<not> is_uuid ident" and "all_vms_cache c = None" and "find_vm w ident c = Some (r, c')"
  shows "\<exists>ns rest. sent c' = sent c @ map (page_request c) (0 # ns) @ rest"
proof -
  from assms(1,3) obtain x c1 where g: "get_all_vms w True c = Some (x, c1)"
    by (auto simp: find_vm_def split: option.splits)
  from assms(2) have u: "True \<longrightarrow> all_vms_cache c = None" by simp
  from get_all_vms_sent [OF u g] obtain ns where
    ns: "sent c1 = sent c @ map (page_request c) (0 # ns)" by blast
  have "c' = c1 \<or> (\<exists>i. c' = snd (get_vm_details w i c1))"
    using assms(1,3) g
    by (auto simp: find_vm_def split: sum.splits if_splits) (metis snd_conv)
  then obtain rest where "sent c' = sent c1 @ rest"
    using get_vm_details_sent [of w _ c1] by (metis append_Nil2)
  with ns have "sent c' = sent c @ map (page_request c) (0 # ns) @ rest" by simp
  then show ?thesis by blast
qed

text \<open>
  C7 (as amended). An identifier with exactly five hyphen-delimited segments is looked up
  directly: one detail request and no scan. Any other identifier is looked up by name in the
  list that \<open>get_all_vms\<close> returns with caching enabled: with an unpopulated cache this is a
  full scan, starting at page 0; with a populated cache it is the cached list, and no page is
  requested. The first record whose name equals the identifier exactly is the match, and
  its identifier is handed to the detail look-up; with no such record the result is \<open>None\<close>.
\<close>

theorem find_vm_routing:
  "is_uuid ''550e8400-e29b-41d4-a716-446655440000''
   \<and> \<not> is_uuid ''web-server-01''
   \<and> (is_uuid ident \<longrightarrow>
        find_vm w ident c = Some (get_vm_details w (JStr ident) c)
        \<and> snd (get_vm_details w (JStr ident) c) = c\<lparr>sent := sent c @ [detail_request c ident]\<rparr>)
   \<and> (\<not> is_uuid ident \<and> all_vms_cache c = None \<and> find_vm w ident c = Some (r, c')
       \<longrightarrow> (\<exists>ns rest. sent c' = sent c @ map (page_request c) (0 # ns) @ rest))
   \<and> (\<not> is_uuid ident \<and> all_vms_cache c = Some cached
       \<longrightarrow> get_all_vms w True c = Some (Inr cached, c))
   \<and> (\<not> is_uuid ident \<and> get_all_vms w True c = Some (Inr vms, c1)
        \<and> (\<forall>v\<in>set vms. \<exists>n. dict_get v ''name'' JNull = Inr n \<and> n \<noteq> JStr ident)
       \<longrightarrow> find_vm w ident c = Some (Inr JNull, c1))
   \<and> (\<not> is_uuid ident \<and> get_all_vms w True c = Some (Inr (pre @ vm # post), c1)
        \<and> (\<forall>v\<in>set pre. \<exists>n. dict_get v ''name'' JNull = Inr n \<and> n \<noteq> JStr ident)
        \<and> dict_get vm ''name'' JNull = Inr (JStr ident)
        \<and> dict_get vm ''id'' JNull = Inr i
       \<longrightarrow> find_vm w ident c = Some (get_vm_details w i c1))"
proof -
  have a: "is_uuid ident \<longrightarrow>
        find_vm w ident c = Some (get_vm_details w (JStr ident) c)
        \<and> snd (get_vm_details w (JStr ident) c) = c\<lparr>sent := sent c @ [detail_request c ident]\<rparr>"
    using find_vm_uuid get_vm_details_str is_uuid_nonempty by blast
  have b: "\<not> is_uuid ident \<and> all_vms_cache c = None \<and> find_vm w ident c = Some (r, c')
       \<longrightarrow> (\<exists>ns rest. sent c' = sent c @ map (page_request c) (0 # ns) @ rest)"
    using find_vm_scans by blast
  have d: "\<not> is_uuid ident \<and> all_vms_cache c = Some cached
       \<longrightarrow> get_all_vms w True c = Some (Inr cached, c)"
    using get_all_vms_cached by blast
  have e: "\<not> is_uuid ident \<and> get_all_vms w True c = Some (Inr vms, c1)
        \<and> (\<forall>v\<in>set vms. \<exists>n. dict_get v ''name'' JNull = Inr n \<and> n \<noteq> JStr ident)
       \<longrightarrow> find_vm w ident c = Some (Inr JNull, c1)"
  proof (intro impI, elim conjE)
    assume h: "\<not> is_uuid ident" "get_all_vms w True c = Some (Inr vms, c1)"
      "\<forall>v\<in>set vms. \<exists>n. dict_get v ''name'' JNull = Inr n \<and> n \<noteq> JStr ident"
    from find_vm_name [OF h(1,2) first_named_none [OF h(3)]]
    show "find_vm w ident c = Some (Inr JNull, c1)" by simp
  qed
  have f: "\<not> is_uuid ident \<and> get_all_vms w True c = Some (Inr (pre @ vm # post), c1)
        \<and> (\<forall>v\<in>set pre. \<exists>n. dict_get v ''name'' JNull = Inr n \<and> n \<noteq> JStr ident)
        \<and> dict_get vm ''name'' JNull = Inr (JStr ident)
        \<and> dict_get vm ''id'' JNull = Inr i
       \<longrightarrow> find_vm w ident c = Some (get_vm_details w i c1)"
  proof (intro impI, elim conjE)
    assume h: "\<not> is_uuid ident" "get_all_vms w True c = Some (Inr (pre @ vm # post), c1)"
      "\<forall>v\<in>set pre. \<exists>n. dict_get v ''name'' JNull = Inr n \<and> n \<noteq> JStr ident"
      "dict_get vm ''name'' JNull = Inr (JStr ident)" "dict_get vm ''id'' JNull = Inr i"
    from find_vm_name [OF h(1,2) first_named_first [OF h(3,4)]] named_truthy [OF h(4)] h(5)
    show "find_vm w ident c = Some (get_vm_details w i c1)" by simp
  qed
  from is_uuid_examples a b d e f show ?thesis by (intro conjI)
qed

theorem find_vm_routing_witness:
  "find_vm offline ''550e8400-e29b-41d4-a716-446655440000'' client0
     = Some (get_vm_details offline (JStr ''550e8400-e29b-41d4-a716-446655440000'') client0)
   \<and> snd (get_vm_details offline (JStr ''550e8400-e29b-41d4-a716-446655440000'') client0)
     = client0\<lparr>sent := sent client0
         @ [detail_request client0 ''550e8400-e29b-41d4-a716-446655440000'']\<rparr>
   \<and> (\<exists>ns rest. sent (client0\<lparr>sent := sent client0 @ [page_request client0 0],
                                 all_vms_cache := Some []\<rparr>)
          = sent client0 @ map (page_request client0) (0 # ns) @ rest)
   \<and> find_vm offline ''web-server-01'' client0
     = Some (Inr JNull, client0\<lparr>sent := sent client0 @ [page_request client0 0],
                                all_vms_cache := Some []\<rparr>)
   \<and> get_all_vms offline True cached_client
     = Some (Inr [vm_rec ''db-01'' ''vm-7'', vm_rec ''web-server-01'' ''vm-42''], cached_client)
   \<and> find_vm offline ''web-server-01'' cached_client
     = Some (get_vm_details offline (JStr ''vm-42'') cached_client)"
proof -
  let ?u = "''550e8400-e29b-41d4-a716-446655440000''"
  let ?n = "''web-server-01''"
  let ?c1 = "client0\<lparr>sent := sent client0 @ [page_request client0 0], all_vms_cache := Some []\<rparr>"
  let ?vms = "[vm_rec ''db-01'' ''vm-7'', vm_rec ''web-server-01'' ''vm-42'']"
  have u: "is_uuid ?u" and n: "\<not> is_uuid ?n"
    by (rule is_uuid_examples)+
  have g0: "get_all_vms offline True client0 = Some (Inr [], ?c1)"
    by (simp add: get_all_vms_offline client0_fields)
  have none: "\<forall>v\<in>set []. \<exists>k. dict_get v ''name'' JNull = Inr k \<and> k \<noteq> JStr ?n"
    by simp
  have k: "all_vms_cache cached_client = Some ?vms"
    by (simp add: cached_client_def)
  have g1: "get_all_vms offline True cached_client = Some (Inr ([vm_rec ''db-01'' ''vm-7'']
      @ vm_rec ''web-server-01'' ''vm-42'' # []), cached_client)"
    by (simp add: get_all_vms_cached k)
  have pre: "\<forall>v\<in>set [vm_rec ''db-01'' ''vm-7'']. \<exists>k. dict_get v ''name'' JNull = Inr k \<and> k \<noteq> JStr ?n"
    by (simp add: vm_rec_def)
  have nm: "dict_get (vm_rec ''web-server-01'' ''vm-42'') ''name'' JNull = Inr (JStr ?n)"
    and idv: "dict_get (vm_rec ''web-server-01'' ''vm-42'') ''id'' JNull = Inr (JStr ''vm-42'')"
    by (simp_all add: vm_rec_def)
  note a = find_vm_routing [where ident = ?u and w = offline and c = client0,
      THEN conjunct2, THEN conjunct2, THEN conjunct1, rule_format, OF u]
  note e = find_vm_routing [where ident = ?n and w = offline and c = client0 and vms = "[]"
      and ?c1.0 = ?c1,
      THEN conjunct2, THEN conjunct2, THEN conjunct2, THEN conjunct2, THEN conjunct2,
      THEN conjunct1, rule_format, OF conjI, OF n conjI, OF g0 none]
  note b = find_vm_routing [where ident = ?n and w = offline and c = client0
      and r = "Inr JNull" and c' = ?c1,
      THEN conjunct2, THEN conjunct2, THEN conjunct2, THEN conjunct1, rule_format,
      OF conjI, OF n conjI, OF client0_fields(3) e]
  note d = find_vm_routing [where ident = ?n and w = offline and c = cached_client
      and cached = ?vms,
      THEN conjunct2, THEN conjunct2, THEN conjunct2, THEN conjunct2, THEN conjunct1,
      rule_format, OF conjI, OF n k]
  note f = find_vm_routing [where ident = ?n and w = offline and c = cached_client
      and pre = "[vm_rec ''db-01'' ''vm-7'']" and vm = "vm_rec ''web-server-01'' ''vm-42''"
      and post = "[]" and ?c1.0 = cached_client and i = "JStr ''vm-42''",
      THEN conjunct2, THEN conjunct2, THEN conjunct2, THEN conjunct2, THEN conjunct2,
      THEN conjunct2, rule_format, OF conjI, OF n conjI, OF g1 conjI, OF pre conjI, OF nm idv]
  from a b e d f show ?thesis by (intro conjI) simp_all
qed

text \<open>
  C7 as stated fails: with the VM list cached, the name \<open>web-server-01\<close> is resolved with a
  single request, the detail look-up of the matching record; no page of the list is requested.
\<close>

theorem find_vm_cached_counterexample:
  "\<not> is_uuid ''web-server-01''
   \<and> find_vm offline ''web-server-01'' cached_client
       = Some (Inr JNull, cached_client\<lparr>sent := [detail_request cached_client ''vm-42'']\<rparr>)"
proof -
  have n: "\<not> is_uuid ''web-server-01''" by (rule is_uuid_examples)
  have g: "get_all_vms offline True cached_client
      = Some (Inr [vm_rec ''db-01'' ''vm-7'', vm_rec ''web-server-01'' ''vm-42''], cached_client)"
    by (simp add: get_all_vms_cached cached_client_def)
  have f: "first_named [vm_rec ''db-01'' ''vm-7'', vm_rec ''web-server-01'' ''vm-42''] ''web-server-01''
      = Inr (vm_rec ''web-server-01'' ''vm-42'')"
    by (simp add: vm_rec_def then_do_def)
  have s: "sent cached_client = []"
    by (simp add: cached_client_def client0_fields)
  have d: "get_vm_details offline (JStr ''vm-42'') cached_client
      = (Inr JNull, cached_client\<lparr>sent := [detail_request cached_client ''vm-42'']\<rparr>)"
    by (simp add: get_vm_details_def send_request_def format_value_def detail_request_def
        offline_def sim_world_def s)
  from find_vm_name [OF n g f] d have
    "find_vm offline ''web-server-01'' cached_client
       = Some (Inr JNull, cached_client\<lparr>sent := [detail_request cached_client ''vm-42'']\<rparr>)"
    by (simp add: vm_rec_def)
  with n show ?thesis by simp
qed

subsection \<open>The infrastructure report\<close>

lemma then_do_simps [simp]:
  "then_do (Inr v) f = f v"
  "then_do (Inl e) f = Inl e"
  by (simp_all add: then_do_def)

lemma then_do_Inr: "then_do m f = Inr r \<longleftrightarrow> (\<exists>v. m = Inr v \<and> f v = Inr r)"
  by (cases m) simp_all

lemma add_totals_zero [simp]: "add_totals t zero_totals = t" "add_totals zero_totals t = t"
  by (simp_all add: add_totals_def zero_totals_def)


lemma amounts_added:
  "add_used a b c (add_provisioned d e f (count_vm s t))
     = add_totals t (add_used a b c (add_provisioned d e f (count_vm s zero_totals)))"
  by (simp add: add_used_def add_provisioned_def count_vm_def add_totals_def zero_totals_def Let_def)

lemma add_vm_unfold:
  "add_vm vm rep =
     then_do (dict_get vm ''az_name'' JNull) (\<lambda>az_name.
       if \<not> py_truthy az_name then Inr rep
       else then_do (hash_key az_name) (\<lambda>k.
         case map_of (by_availability_zone rep) k of
           None \<Rightarrow> Inr rep
         | Some az_report \<Rightarrow>
             then_do (vm_amounts vm) (\<lambda>d.
               Inr (rep\<lparr>overall_totals := add_totals (overall_totals rep) d,
                       by_availability_zone :=
                         AList.update k (add_totals az_report d) (by_availability_zone rep)\<rparr>))))"
  unfolding add_vm_def vm_amounts_def Let_def
  by (auto simp: then_do_def amounts_added [symmetric] split: sum.splits option.splits)




lemma dom_update_present:
  "map_of al k = Some t \<Longrightarrow> dom (map_of (AList.update k v al)) = dom (map_of al)"
  by (auto simp: update_conv')

lemma add_vm_result:
  assumes "add_vm vm rep = Inr rep'"
  shows "(case vm_zone (by_availability_zone rep) vm of
            None \<Rightarrow> rep' = rep
          | Some k \<Rightarrow>
              (\<exists>t. map_of (by_availability_zone rep) k = Some t
                \<and> vm_amounts vm = Inr (contribution vm)
                \<and> rep' = rep\<lparr>overall_totals := add_totals (overall_totals rep) (contribution vm),
                             by_availability_zone :=
                               AList.update k (add_totals t (contribution vm))
                                 (by_availability_zone rep)\<rparr>))"
  using assms
  by (auto simp: add_vm_unfold vm_zone_def contribution_def then_do_Inr
      split: sum.splits option.splits if_splits)

lemma add_vm_dom:
  assumes "add_vm vm rep = Inr rep'"
  shows "dom (map_of (by_availability_zone rep')) = dom (map_of (by_availability_zone rep))"
proof (cases "vm_zone (by_availability_zone rep) vm")
  case None
  with add_vm_result [OF assms] show ?thesis by simp
next
  case (Some k)
  with add_vm_result [OF assms] obtain t where
    "map_of (by_availability_zone rep) k = Some t"
    "by_availability_zone rep'
       = AList.update k (add_totals t (contribution vm)) (by_availability_zone rep)"
    by auto
  then show ?thesis by (simp add: dom_update_present)
qed

lemma add_vm_skipped:
  assumes "dict_get vm ''az_name'' JNull = Inr az"
    and "\<not> py_truthy az \<or> (\<exists>k. hash_key az = Inr k \<and> map_of (by_availability_zone rep) k = None)"
  shows "add_vm vm rep = Inr rep"
  using assms by (auto simp: add_vm_unfold)

lemma add_vms_append:
  "add_vms (xs @ ys) rep = then_do (add_vms xs rep) (\<lambda>r. add_vms ys r)"
  by (induction xs arbitrary: rep) (auto simp: then_do_def split: sum.splits)

lemma add_vms_dom:
  "add_vms vms rep = Inr rep' \<Longrightarrow>
   dom (map_of (by_availability_zone rep')) = dom (map_of (by_availability_zone rep))"
proof (induction vms arbitrary: rep)
  case Nil
  then show ?case by simp
next
  case (Cons v vs)
  from Cons.prems obtain r1 where r1: "add_vm v rep = Inr r1" "add_vms vs r1 = Inr rep'"
    by (auto simp: then_do_Inr)
  from Cons.IH [OF r1(2)] add_vm_dom [OF r1(1)] show ?case by simp
qed

lemma add_vms_skipped:
  assumes "dict_get vm ''az_name'' JNull = Inr az"
    and "\<not> py_truthy az \<or> (\<exists>k. hash_key az = Inr k \<and> map_of (by_availability_zone rep) k = None)"
  shows "add_vms (xs @ vm # ys) rep = add_vms (xs @ ys) rep"
proof (cases "add_vms xs rep")
  case (Inl e)
  then show ?thesis by (simp add: add_vms_append)
next
  case (Inr r1)
  from add_vms_dom [OF Inr] have
    "(map_of (by_availability_zone r1) k = None) = (map_of (by_availability_zone rep) k = None)" for k
    by (metis domIff)
  with assms(2) have
    "\<not> py_truthy az \<or> (\<exists>k. hash_key az = Inr k \<and> map_of (by_availability_zone r1) k = None)"
    by auto
  from add_vm_skipped [OF assms(1) this] Inr show ?thesis
    by (simp add: add_vms_append)
qed













lemma zone_response_table:
  "az_list_of zone_response = Inr (JArr [JObj [(''name'', JStr ''az1'')]])"
  "zone_table (JArr [JObj [(''name'', JStr ''az1'')]]) = Inr [(KStr ''az1'', zero_totals)]"
  by (simp_all add: az_list_of_def zone_response_def zone_table_def)


lemma mem_vm_zone: "vm_zone [(KStr ''az1'', t)] (mem_vm mb) = Some (KStr ''az1'')"
  by (simp add: vm_zone_def mem_vm_def)


lemma build_report_skipped:
  assumes az: "az_list_of azr = Inr al" and zt: "zone_table al = Inr zones"
    and dg: "dict_get vm ''az_name'' JNull = Inr az"
    and sk: "\<not> py_truthy az \<or> (\<exists>k. hash_key az = Inr k \<and> map_of zones k = None)"
  shows "build_report now (xs @ vm # ys) azr =
     (if xs @ ys = []
      then Inr (Report (finalize \<lparr>report_generated_at = now, overall_totals = zero_totals,
                                  by_availability_zone = zones\<rparr>))
      else build_report now (xs @ ys) azr)"
proof -
  let ?rep = "\<lparr>report_generated_at = now, overall_totals = zero_totals,
               by_availability_zone = zones\<rparr>"
  from sk have sk': "\<not> py_truthy az
      \<or> (\<exists>k. hash_key az = Inr k \<and> map_of (by_availability_zone ?rep) k = None)"
    by simp
  have e: "add_vms (xs @ vm # ys) ?rep = add_vms (xs @ ys) ?rep"
    by (rule add_vms_skipped [OF dg sk'])
  have n: "add_vms [] ?rep = Inr ?rep" by simp
  show ?thesis
  proof (cases "xs @ ys = []")
    case True
    with e n have "add_vms (xs @ vm # ys) ?rep = Inr ?rep" by simp
    with True show ?thesis by (simp add: build_report_def az zt)
  next
    case False
    with e show ?thesis by (simp add: build_report_def az zt)
  qed
qed

lemma py_round2_zero [simp]: "py_round2 0 = 0"
  by (simp add: py_round2_def)

lemma round_totals_zero [simp]: "round_totals zero_totals = zero_totals"
  by (simp add: round_totals_def zero_totals_def)




text \<open>
  C8. A VM whose \<open>az_name\<close> is absent (or otherwise falsy), or names a zone that is not in
  the zone table, is skipped: the loop body leaves the report as it was, so the report of a
  fleet with such a VM is the report of the fleet without it, errors included; if it is the
  only VM, the report is the zeroed report, not an error. The zone name is taken to be
  hashable, as a string is.
\<close>

theorem unknown_zone_vm_is_skipped:
  "(dict_get vm ''az_name'' JNull = Inr az
      \<and> (\<not> py_truthy az \<or> (\<exists>k. hash_key az = Inr k \<and> map_of (by_availability_zone rep) k = None))
     \<longrightarrow> add_vm vm rep = Inr rep \<and> add_vms (xs @ vm # ys) rep = add_vms (xs @ ys) rep)
   \<and> (az_list_of az_response = Inr al \<and> zone_table al = Inr zones
      \<and> dict_get vm ''az_name'' JNull = Inr az
      \<and> (\<not> py_truthy az \<or> (\<exists>k. hash_key az = Inr k \<and> map_of zones k = None))
     \<longrightarrow> build_report now (xs @ vm # ys) az_response =
          (if xs @ ys = []
           then Inr (Report (finalize \<lparr>report_generated_at = now, overall_totals = zero_totals,
                                       by_availability_zone = zones\<rparr>))
           else build_report now (xs @ ys) az_response))"
proof -
  have a: "dict_get vm ''az_name'' JNull = Inr az
      \<and> (\<not> py_truthy az \<or> (\<exists>k. hash_key az = Inr k \<and> map_of (by_availability_zone rep) k = None))
     \<longrightarrow> add_vm vm rep = Inr rep \<and> add_vms (xs @ vm # ys) rep = add_vms (xs @ ys) rep"
    using add_vm_skipped add_vms_skipped by blast
  have b: "az_list_of az_response = Inr al \<and> zone_table al = Inr zones
      \<and> dict_get vm ''az_name'' JNull = Inr az
      \<and> (\<not> py_truthy az \<or> (\<exists>k. hash_key az = Inr k \<and> map_of zones k = None))
     \<longrightarrow> build_report now (xs @ vm # ys) az_response =
          (if xs @ ys = []
           then Inr (Report (finalize \<lparr>report_generated_at = now, overall_totals = zero_totals,
                                       by_availability_zone = zones\<rparr>))
           else build_report now (xs @ ys) az_response)"
    using build_report_skipped by blast
  from a b show ?thesis by (rule conjI)
qed

theorem unknown_zone_vm_is_skipped_witness:
  "add_vm (vm_rec ''x'' ''1'')
       \<lparr>report_generated_at = ''t'', overall_totals = zero_totals,
        by_availability_zone = [(KStr ''az1'', zero_totals)]\<rparr>
     = Inr \<lparr>report_generated_at = ''t'', overall_totals = zero_totals,
            by_availability_zone = [(KStr ''az1'', zero_totals)]\<rparr>
   \<and> build_report ''t'' ([mem_vm 1536, mem_vm 2048] @ vm_rec ''x'' ''1'' # [mem_vm 513]) zone_response
     = build_report ''t'' ([mem_vm 1536, mem_vm 2048] @ [mem_vm 513]) zone_response
   \<and> build_report ''t'' ([mem_vm 1536, mem_vm 2048] @ JObj [(''az_name'', JStr ''az9'')] # [mem_vm 513])
        zone_response
     = build_report ''t'' ([mem_vm 1536, mem_vm 2048] @ [mem_vm 513]) zone_response
   \<and> build_report ''t'' ([] @ JObj [(''az_name'', JStr ''az9'')] # []) zone_response
     = Inr (Report (finalize \<lparr>report_generated_at = ''t'', overall_totals = zero_totals,
                               by_availability_zone = [(KStr ''az1'', zero_totals)]\<rparr>))"
proof -
  let ?rep = "\<lparr>report_generated_at = ''t'', overall_totals = zero_totals,
               by_availability_zone = [(KStr ''az1'', zero_totals)]\<rparr>"
  have d1: "dict_get (vm_rec ''x'' ''1'') ''az_name'' JNull = Inr JNull"
    by (simp add: vm_rec_def)
  have s1: "\<not> py_truthy JNull
      \<or> (\<exists>k. hash_key JNull = Inr k \<and> map_of (by_availability_zone ?rep) k = None)"
    by simp
  have s1': "\<not> py_truthy JNull
      \<or> (\<exists>k. hash_key JNull = Inr k \<and> map_of [(KStr ''az1'', zero_totals)] k = None)"
    by simp
  have d2: "dict_get (JObj [(''az_name'', JStr ''az9'')]) ''az_name'' JNull = Inr (JStr ''az9'')"
    by simp
  have s2: "\<not> py_truthy (JStr ''az9'')
      \<or> (\<exists>k. hash_key (JStr ''az9'') = Inr k \<and> map_of [(KStr ''az1'', zero_totals)] k = None)"
    by simp
  note z = zone_response_table
  note a = unknown_zone_vm_is_skipped [where vm = "vm_rec ''x'' ''1''" and az = JNull
      and rep = ?rep, THEN conjunct1, rule_format, OF conjI, OF d1 s1, THEN conjunct1]
  note b = unknown_zone_vm_is_skipped [where vm = "vm_rec ''x'' ''1''" and az = JNull
      and az_response = zone_response and now = "''t''"
      and xs = "[mem_vm 1536, mem_vm 2048]" and ys = "[mem_vm 513]",
      THEN conjunct2, rule_format, OF conjI, OF z(1) conjI, OF z(2) conjI, OF d1 s1']
  note c = unknown_zone_vm_is_skipped [where vm = "JObj [(''az_name'', JStr ''az9'')]"
      and az = "JStr ''az9''" and az_response = zone_response and now = "''t''"
      and xs = "[mem_vm 1536, mem_vm 2048]" and ys = "[mem_vm 513]",
      THEN conjunct2, rule_format, OF conjI, OF z(1) conjI, OF z(2) conjI, OF d2 s2]
  note d = unknown_zone_vm_is_skipped [where vm = "JObj [(''az_name'', JStr ''az9'')]"
      and az = "JStr ''az9''" and az_response = zone_response and now = "''t''"
      and xs = "[]" and ys = "[]",
      THEN conjunct2, rule_format, OF conjI, OF z(1) conjI, OF z(2) conjI, OF d2 s2]
  from a b c d show ?thesis by (intro conjI) simp_all
qed






end
